theory Spec2Isabelle
  imports Main "HOL-Library.Word"
begin

unbundle bit_operations_syntax

section \<open>The transaction executive of cpp-ethereum (libethereum/Executive.cpp)\<close>

text \<open>
  A shallow embedding of \<^verbatim>\<open>Executive::setup\<close>, \<^verbatim>\<open>call\<close>, \<^verbatim>\<open>create\<close>,
  \<^verbatim>\<open>go\<close> and \<^verbatim>\<open>finalize\<close>. The C++ types \<^verbatim>\<open>u256\<close>, \<^verbatim>\<open>h256\<close> and
  \<^verbatim>\<open>Address\<close> (\<^verbatim>\<open>h160\<close>) are fixed-width and unchecked, so they are words and
  their arithmetic wraps around; \<^verbatim>\<open>bigint\<close> is \<^typ>\<open>int\<close>. The mutable members of the
  Executive, and the ledger state it borrows by reference, are threaded through every
  function explicitly. A thrown exception is a value \<open>Inl e\<close> paired with the state the
  throw leaves behind.
\<close>

subsection \<open>Data\<close>

type_synonym u256 = "256 word"
type_synonym h256 = "256 word"
type_synonym Address = "160 word"
type_synonym bytes = "8 word list"
type_synonym LogEntry = bytes

text \<open>
  Modelled from the spec: the account record (Account.h is not among the sources). Section 3
  gives an account a balance, a nonce, code and a key/value storage; \<open>a_isAlive\<close> tells a
  removed account from a live one.
\<close>

record Account =
  a_balance :: u256
  a_nonce :: u256
  a_code :: bytes
  a_storage :: "(u256 \<times> u256) list"
  a_isAlive :: bool

record BlockInfo =
  gasLimit :: u256
  coinbaseAddress :: Address

text \<open>
  Modelled from the spec: the ledger state (State.h and State.cpp are not among the sources):
  a mapping from address to account record (the member \<^verbatim>\<open>m_cache\<close>, which the Executive
  also indexes directly), the current block's gas limit and fee recipient
  (\<^verbatim>\<open>m_currentBlock\<close>), and the gas used so far in the block, which
  \<^verbatim>\<open>State::gasUsed()\<close> reports.
\<close>

record State =
  m_cache :: "Address \<rightharpoonup> Account"
  m_currentBlock :: BlockInfo
  m_gasUsed :: u256

text \<open>The decoded transaction; an absent receiver makes it a creation (spec, section 3).\<close>

record Transaction =
  t_nonce :: u256
  t_value :: u256
  t_receiveAddress :: "Address option"
  t_gasPrice :: u256
  t_gas :: u256
  t_data :: bytes
  t_sender :: Address

definition isCreation :: "Transaction \<Rightarrow> bool" where
  "isCreation t = (t_receiveAddress t = None)"

text \<open>The sub-state a frame accumulates: self-destruct set (its elements, in iteration
  order), logs and refund counter.\<close>

record SubState =
  suicides :: "Address list"
  logs :: "LogEntry list"
  refunds :: u256

definition sub_clear :: SubState where
  "sub_clear = \<lparr>suicides = [], logs = [], refunds = 0\<rparr>"

text \<open>
  The execution context adapter, with the arguments \<^verbatim>\<open>make_shared<ExtVM>\<close> is given.
  It refers to the ledger state of the Executive, which the model keeps in \<open>m_s\<close>;
  \<open>m_origCache\<close> is the account mapping at the time of construction.
\<close>

record ExtVM =
  myAddress :: Address
  caller :: Address
  origin :: Address
  e_value :: u256
  e_gasPrice :: u256
  e_data :: bytes
  e_code :: bytes
  depth :: nat
  sub :: SubState
  m_origCache :: "Address \<rightharpoonup> Account"

text \<open>A native contract: its gas cost (a \<^verbatim>\<open>bigint\<close>) and what it computes from the input.\<close>

record PrecompiledAddress =
  p_gas :: "bytes \<Rightarrow> int"
  p_exec :: "bytes \<Rightarrow> bytes"

text \<open>
  One run of the interpreter (\<^verbatim>\<open>m_vm->go(*m_ext, _onOp, 0)\<close>): it returns the output or
  throws, and leaves behind the gas of the VM, the sub-state of the adapter and the accounts
  of the ledger state, all of which it mutates through references. (The accounts are what
  the adapter gives access to and what its \<^verbatim>\<open>revert\<close> restores.)
\<close>

datatype VMOutcome =
    Returned bytes
  | ThrownStepsDone
  | ThrownVMException
  | ThrownException
  | ThrownStdException

record VMRun =
  outcome :: VMOutcome
  vm_gas :: u256
  run_sub :: SubState
  run_cache :: "Address \<rightharpoonup> Account"

text \<open>
  What the Executive takes from other files of the repository, none of which is among the
  sources, as parameters: the intrinsic gas of a payload (\<^verbatim>\<open>Interface::txGas\<close>, a
  \<^verbatim>\<open>bigint\<close>), the registry \<^verbatim>\<open>State::precompiled()\<close>, the constant
  \<^verbatim>\<open>c_createDataGas\<close>, the functions \<^verbatim>\<open>rlpList\<close>, \<^verbatim>\<open>sha3\<close> and
  \<^verbatim>\<open>right160\<close> of the address derivation, and the interpreter.
\<close>

record Externals =
  txGas :: "bytes \<Rightarrow> int"
  precompiled :: "nat \<rightharpoonup> PrecompiledAddress"
  c_createDataGas :: u256
  rlpList :: "Address \<Rightarrow> u256 \<Rightarrow> bytes"
  sha3 :: "bytes \<Rightarrow> h256"
  right160 :: "h256 \<Rightarrow> Address"
  vm_go :: "State \<Rightarrow> ExtVM \<Rightarrow> u256 \<Rightarrow> VMRun"

text \<open>
  The members of the Executive. \<open>m_vm\<close> is the interpreter instance, if any, with its
  remaining gas. \<open>execd\<close> is not a member: it records each call of a native contract's
  \<^verbatim>\<open>exec\<close> (registry key and input), whose output \<^verbatim>\<open>call\<close> writes to an empty
  \<^verbatim>\<open>bytesRef()\<close>, so that "the native contract ran" can be told from "it did not".
\<close>

record Executive =
  m_s :: State
  m_t :: Transaction
  m_sender :: Address
  m_depth :: nat
  m_isCreation :: bool
  m_newAddress :: Address
  m_endGas :: u256
  m_out :: bytes
  m_logs :: "LogEntry list"
  m_excepted :: bool
  m_vm :: "u256 option"
  m_ext :: "ExtVM option"
  execd :: "(nat \<times> bytes) list"

datatype error =
    InvalidNonce u256 u256
  | OutOfGas int int
  | NotEnoughCash int int
  | BlockGasLimitReached int int

subsection \<open>The account and ledger-state operations the Executive calls\<close>

text \<open>
  Modelled from the spec: \<^verbatim>\<open>Account(balance, type)\<close> (Account.h is absent), a live
  account with the given balance, no nonce used, no code and no storage; the Executive
  passes \<^verbatim>\<open>ContractConception\<close> for the account of a creation (section 4.3).
\<close>

definition new_Account :: "u256 \<Rightarrow> Account" where
  "new_Account b = \<lparr>a_balance = b, a_nonce = 0, a_code = [], a_storage = [], a_isAlive = True\<rparr>"

text \<open>
  Modelled from the spec: \<^verbatim>\<open>Account::kill\<close> (Account.h is absent). Section 4.5: the
  account is removed, "balance, code, storage all cleared".
\<close>

definition kill :: "Account \<Rightarrow> Account" where
  "kill a = a\<lparr>a_balance := 0, a_nonce := 0, a_code := [], a_storage := [], a_isAlive := False\<rparr>"

text \<open>
  Modelled from the spec: the default-constructed \<^verbatim>\<open>Account()\<close> that
  \<^verbatim>\<open>m_cache[a]\<close> inserts for an address the mapping does not hold (Account.h is absent):
  an account with nothing in it, not alive.
\<close>

definition dead_Account :: Account where
  "dead_Account = \<lparr>a_balance = 0, a_nonce = 0, a_code = [], a_storage = [], a_isAlive = False\<rparr>"

text \<open>\<^verbatim>\<open>m_cache[a]\<close> of \<^verbatim>\<open>std::map\<close>: the entry, default-constructed when absent.\<close>

definition cache_at :: "(Address \<rightharpoonup> Account) \<Rightarrow> Address \<Rightarrow> Account" where
  "cache_at c a = (case c a of None \<Rightarrow> dead_Account | Some acc \<Rightarrow> acc)"

text \<open>Modelled from the spec: \<^verbatim>\<open>Account::setCode\<close> (Account.h is absent).\<close>

definition setCode :: "bytes \<Rightarrow> Account \<Rightarrow> Account" where
  "setCode c a = a\<lparr>a_code := c\<rparr>"

text \<open>
  Modelled from the spec: the queries of section 6 (State.cpp is absent): balance for
  address, current nonce for address, code for address and has-code for address. An address
  the mapping does not hold has balance 0, nonce 0 and no code.
\<close>

definition balance :: "State \<Rightarrow> Address \<Rightarrow> u256" where
  "balance s a = (case m_cache s a of None \<Rightarrow> 0 | Some acc \<Rightarrow> a_balance acc)"

definition transactionsFrom :: "State \<Rightarrow> Address \<Rightarrow> u256" where
  "transactionsFrom s a = (case m_cache s a of None \<Rightarrow> 0 | Some acc \<Rightarrow> a_nonce acc)"

definition code :: "State \<Rightarrow> Address \<Rightarrow> bytes" where
  "code s a = (case m_cache s a of None \<Rightarrow> [] | Some acc \<Rightarrow> a_code acc)"

definition addressHasCode :: "State \<Rightarrow> Address \<Rightarrow> bool" where
  "addressHasCode s a = (case m_cache s a of None \<Rightarrow> False | Some acc \<Rightarrow> a_code acc \<noteq> [])"

definition gasUsed :: "State \<Rightarrow> u256" where
  "gasUsed s = m_gasUsed s"

text \<open>
  Modelled from the spec: the mutators of section 6 (State.cpp is absent): credit and debit
  a balance, mark a nonce used. Each changes one field of one account; an address the
  mapping does not hold gets a fresh account first. The arithmetic is that of \<^verbatim>\<open>u256\<close>.
\<close>

definition addBalance :: "State \<Rightarrow> Address \<Rightarrow> u256 \<Rightarrow> State" where
  "addBalance s a v =
     (case m_cache s a of
        None \<Rightarrow> s\<lparr>m_cache := (m_cache s)(a \<mapsto> new_Account v)\<rparr>
      | Some acc \<Rightarrow> s\<lparr>m_cache := (m_cache s)(a \<mapsto> acc\<lparr>a_balance := a_balance acc + v\<rparr>)\<rparr>)"

definition subBalance :: "State \<Rightarrow> Address \<Rightarrow> u256 \<Rightarrow> State" where
  "subBalance s a v =
     (case m_cache s a of
        None \<Rightarrow> s\<lparr>m_cache := (m_cache s)(a \<mapsto> new_Account (0 - v))\<rparr>
      | Some acc \<Rightarrow> s\<lparr>m_cache := (m_cache s)(a \<mapsto> acc\<lparr>a_balance := a_balance acc - v\<rparr>)\<rparr>)"

definition noteSending :: "State \<Rightarrow> Address \<Rightarrow> State" where
  "noteSending s a =
     (case m_cache s a of
        None \<Rightarrow> s\<lparr>m_cache := (m_cache s)(a \<mapsto> (new_Account 0)\<lparr>a_nonce := 1\<rparr>)\<rparr>
      | Some acc \<Rightarrow> s\<lparr>m_cache := (m_cache s)(a \<mapsto> acc\<lparr>a_nonce := a_nonce acc + 1\<rparr>)\<rparr>)"

text \<open>
  Modelled from the spec: \<^verbatim>\<open>ExtVM::revert\<close> (ExtVM.h is absent). It discards the logs,
  refunds and pending destructions the frame accumulated (sections 2 and 4.4); the comment
  in \<^verbatim>\<open>create\<close> calls "the reverted state" the one "with which m_ext is constructed",
  so the account mapping goes back to that of the construction.
\<close>

definition revert :: "State \<Rightarrow> ExtVM \<Rightarrow> State \<times> ExtVM" where
  "revert s e = (s\<lparr>m_cache := m_origCache e\<rparr>, e\<lparr>sub := sub_clear\<rparr>)"

text \<open>The construction \<^verbatim>\<open>make_shared<ExtVM>(m_s, ...)\<close>.\<close>

definition new_ExtVM ::
  "State \<Rightarrow> Address \<Rightarrow> Address \<Rightarrow> Address \<Rightarrow> u256 \<Rightarrow> u256 \<Rightarrow> bytes \<Rightarrow> bytes \<Rightarrow> nat \<Rightarrow> ExtVM" where
  "new_ExtVM s my cl orig v gp dat cd d =
     \<lparr>myAddress = my, caller = cl, origin = orig, e_value = v, e_gasPrice = gp,
      e_data = dat, e_code = cd, depth = d, sub = sub_clear, m_origCache = m_cache s\<rparr>"

subsection \<open>call, create, setup\<close>

text \<open>
  The lookup of \<^verbatim>\<open>call\<close>: the registry is consulted only for an address with no bit
  set above the low 32, under the key \<^verbatim>\<open>(unsigned)(u160)_receiveAddress\<close>.
\<close>

definition find_precompiled :: "Externals \<Rightarrow> Address \<Rightarrow> (nat \<times> PrecompiledAddress) option" where
  "find_precompiled X a =
     (if a AND NOT 0xffffffff = 0
      then (case precompiled X (unat (ucast a :: 32 word)) of
              None \<Rightarrow> None
            | Some p \<Rightarrow> Some (unat (ucast a :: 32 word), p))
      else None)"

definition call ::
  "Externals \<Rightarrow> Executive \<Rightarrow> Address \<Rightarrow> Address \<Rightarrow> Address \<Rightarrow> u256 \<Rightarrow> u256 \<Rightarrow> bytes \<Rightarrow> u256 \<Rightarrow> Address
     \<Rightarrow> bool \<times> Executive" where
  "call X ex receiveAddress codeAddress senderAddress val gasPrice dat gas originAddress =
     (let ex1 = ex\<lparr>m_isCreation := False\<rparr>;
          ex2 = ex1\<lparr>m_s := addBalance (m_s ex1) receiveAddress val\<rparr>
      in case find_precompiled X receiveAddress of
           Some (k, p) \<Rightarrow>
             (let g = p_gas p dat
              in if uint gas < g then (False, ex2\<lparr>m_endGas := 0\<rparr>)
                 else (True, ex2\<lparr>m_endGas := word_of_int (uint gas - g),
                                 execd := execd ex2 @ [(k, dat)]\<rparr>))
         | None \<Rightarrow>
             (if addressHasCode (m_s ex2) codeAddress
              then (let c = code (m_s ex2) receiveAddress;
                        ex3 = ex2\<lparr>m_vm := Some gas,
                                  m_ext := Some (new_ExtVM (m_s ex2) receiveAddress senderAddress
                                    originAddress val gasPrice dat c (m_depth ex2))\<rparr>
                    in (m_ext ex3 = None, ex3))
              else (let ex3 = ex2\<lparr>m_endGas := gas\<rparr> in (m_ext ex3 = None, ex3))))"

definition create ::
  "Externals \<Rightarrow> Executive \<Rightarrow> Address \<Rightarrow> u256 \<Rightarrow> u256 \<Rightarrow> u256 \<Rightarrow> bytes \<Rightarrow> Address \<Rightarrow> bool \<times> Executive" where
  "create X ex sender endowment gasPrice gas init orig =
     (let ex1 = ex\<lparr>m_isCreation := True\<rparr>;
          ex2 = ex1\<lparr>m_newAddress :=
                  right160 X (sha3 X (rlpList X sender (transactionsFrom (m_s ex1) sender - 1)))\<rparr>;
          ex3 = ex2\<lparr>m_s := (m_s ex2)\<lparr>m_cache := (m_cache (m_s ex2))(m_newAddress ex2 \<mapsto>
                  new_Account (balance (m_s ex2) (m_newAddress ex2) + endowment))\<rparr>\<rparr>;
          ex4 = ex3\<lparr>m_vm := Some gas,
                    m_ext := Some (new_ExtVM (m_s ex3) (m_newAddress ex3) sender orig endowment
                      gasPrice [] init (m_depth ex3))\<rparr>
      in (init = [], ex4))"

text \<open>
  \<^verbatim>\<open>Executive::setup\<close> (named \<open>setup_tx\<close> here, \<open>setup\<close> being a command of
  Isabelle), given the transaction that \<^verbatim>\<open>Transaction(_rlp)\<close> decodes and whose sender
  it recovers (decoding is outside the Executive). The result is the exception thrown or
  the value returned, and the Executive as the call leaves it.
\<close>

definition setup_tx :: "Externals \<Rightarrow> Executive \<Rightarrow> Transaction \<Rightarrow> (error + bool) \<times> Executive" where
  "setup_tx X ex t =
     (let ex1 = ex\<lparr>m_t := t\<rparr>;
          ex2 = ex1\<lparr>m_sender := t_sender (m_t ex1)\<rparr>;
          nonceReq = transactionsFrom (m_s ex2) (m_sender ex2)
      in if t_nonce (m_t ex2) \<noteq> nonceReq
         then (Inl (InvalidNonce nonceReq (t_nonce (m_t ex2))), ex2)
         else
          (let gasCost = txGas X (t_data (m_t ex2))
           in if uint (t_gas (m_t ex2)) < gasCost
              then (Inl (OutOfGas gasCost (uint (t_gas (m_t ex2)))), ex2)
              else
               (let cost = t_value (m_t ex2) + t_gas (m_t ex2) * t_gasPrice (m_t ex2)
                in if balance (m_s ex2) (m_sender ex2) < cost
                   then (Inl (NotEnoughCash (uint cost) (uint (balance (m_s ex2) (m_sender ex2)))), ex2)
                   else
                    (let startGasUsed = gasUsed (m_s ex2)
                     in if startGasUsed + t_gas (m_t ex2) > gasLimit (m_currentBlock (m_s ex2))
                        then (Inl (BlockGasLimitReached
                                (uint (gasLimit (m_currentBlock (m_s ex2)) - startGasUsed))
                                (uint (t_gas (m_t ex2)))), ex2)
                        else
                         (let ex3 = ex2\<lparr>m_s := noteSending (m_s ex2) (m_sender ex2)\<rparr>;
                              ex4 = ex3\<lparr>m_s := subBalance (m_s ex3) (m_sender ex3) cost\<rparr>
                          in case t_receiveAddress (m_t ex4) of
                               None \<Rightarrow>
                                 (let (b, ex5) = create X ex4 (m_sender ex4) (t_value (m_t ex4))
                                        (t_gasPrice (m_t ex4))
                                        (t_gas (m_t ex4) - word_of_int gasCost)
                                        (t_data (m_t ex4)) (m_sender ex4)
                                  in (Inr b, ex5))
                             | Some r \<Rightarrow>
                                 (let (b, ex5) = call X ex4 r r (m_sender ex4) (t_value (m_t ex4))
                                        (t_gasPrice (m_t ex4)) (t_data (m_t ex4))
                                        (t_gas (m_t ex4) - word_of_int gasCost) (m_sender ex4)
                                  in (Inr b, ex5)))))))"

subsection \<open>go and finalize\<close>

text \<open>
  \<^verbatim>\<open>go\<close>. \<open>None\<close> is the dereference of a null \<^verbatim>\<open>m_ext\<close> (with an interpreter but no
  adapter, which \<^verbatim>\<open>call\<close> and \<^verbatim>\<open>create\<close> never leave behind). Every exception of the
  interpreter is caught, so there is no thrown result.
\<close>

definition go :: "Externals \<Rightarrow> Executive \<Rightarrow> (bool \<times> Executive) option" where
  "go X ex =
     (case m_vm ex of
        None \<Rightarrow> Some (True, ex)
      | Some g \<Rightarrow>
          (case m_ext ex of
             None \<Rightarrow> None
           | Some e \<Rightarrow>
               (let r = vm_go X (m_s ex) e g;
                    ex1 = ex\<lparr>m_s := (m_s ex)\<lparr>m_cache := run_cache r\<rparr>, m_vm := Some (vm_gas r),
                              m_ext := Some (e\<lparr>sub := run_sub r\<rparr>)\<rparr>
                in case outcome r of
                     Returned out \<Rightarrow>
                       (let ex2 = ex1\<lparr>m_out := out\<rparr>;
                            ex3 = ex2\<lparr>m_endGas := vm_gas r\<rparr>;
                            ex4 = ex3\<lparr>m_endGas := m_endGas ex3 +
                                    min ((t_gas (m_t ex3) - m_endGas ex3) div 2) (refunds (run_sub r))\<rparr>;
                            ex5 = ex4\<lparr>m_logs := logs (run_sub r)\<rparr>
                        in if m_isCreation ex5
                           then (if word_of_nat (length (m_out ex5)) * c_createDataGas X \<le> m_endGas ex5
                                 then Some (True, ex5\<lparr>m_endGas := m_endGas ex5 -
                                        word_of_nat (length (m_out ex5)) * c_createDataGas X\<rparr>)
                                 else Some (True, ex5\<lparr>m_out := []\<rparr>))
                           else Some (True, ex5))
                   | ThrownStepsDone \<Rightarrow> Some (False, ex1)
                   | ThrownVMException \<Rightarrow>
                       (let ex2 = ex1\<lparr>m_endGas := 0\<rparr>;
                            (s', e') = revert (m_s ex2) (e\<lparr>sub := run_sub r\<rparr>);
                            ex3 = ex2\<lparr>m_s := s', m_ext := Some e'\<rparr>
                        in Some (True, ex3\<lparr>m_excepted := True\<rparr>))
                   | ThrownException \<Rightarrow> Some (True, ex1)
                   | ThrownStdException \<Rightarrow> Some (True, ex1))))"

text \<open>The loop of \<^verbatim>\<open>finalize\<close> over the self-destruct set.\<close>

fun kill_all :: "Address list \<Rightarrow> (Address \<rightharpoonup> Account) \<Rightarrow> (Address \<rightharpoonup> Account)" where
  "kill_all [] c = c"
| "kill_all (a # as) c = kill_all as (c(a \<mapsto> kill (cache_at c a)))"

text \<open>
  \<^verbatim>\<open>finalize\<close>. \<open>None\<close> is the dereference of a null \<^verbatim>\<open>m_ext\<close> in the first condition,
  which is evaluated for a creation only.
\<close>

definition finalize :: "Executive \<Rightarrow> Executive option" where
  "finalize ex =
     (case (if isCreation (m_t ex)
            then (case m_ext ex of
                    None \<Rightarrow> None
                  | Some e \<Rightarrow> Some (m_newAddress ex \<notin> set (suicides (sub e))))
            else Some False) of
        None \<Rightarrow> None
      | Some install \<Rightarrow>
         (let ex1 = (if install
                     then ex\<lparr>m_s := (m_s ex)\<lparr>m_cache := (m_cache (m_s ex))(m_newAddress ex \<mapsto>
                            setCode (m_out ex) (cache_at (m_cache (m_s ex)) (m_newAddress ex)))\<rparr>\<rparr>
                     else ex);
              ex2 = ex1\<lparr>m_s := addBalance (m_s ex1) (m_sender ex1)
                            (m_endGas ex1 * t_gasPrice (m_t ex1))\<rparr>;
              feesEarned = (t_gas (m_t ex2) - m_endGas ex2) * t_gasPrice (m_t ex2);
              ex3 = ex2\<lparr>m_s := addBalance (m_s ex2) (coinbaseAddress (m_currentBlock (m_s ex2)))
                            feesEarned\<rparr>
          in case m_ext ex3 of
               None \<Rightarrow> Some ex3
             | Some e \<Rightarrow> Some (ex3\<lparr>m_s := (m_s ex3)\<lparr>m_cache := kill_all (suicides (sub e))
                                    (m_cache (m_s ex3))\<rparr>\<rparr>)))"

text \<open>The self-destruct set \<^verbatim>\<open>finalize\<close> iterates over: none without an adapter.\<close>

definition pending :: "Executive \<Rightarrow> Address list" where
  "pending ex = (case m_ext ex of None \<Rightarrow> [] | Some e \<Rightarrow> suicides (sub e))"

subsection \<open>One transaction, from setup to finalize\<close>

text \<open>
  Modelled from the spec: the caller's sequence for one transaction (section 2, control
  flow; the caller, \<^verbatim>\<open>State::execute\<close>, is not among the sources): on an Executive as
  constructed, \<^verbatim>\<open>setup\<close>, then \<^verbatim>\<open>go\<close>, then \<^verbatim>\<open>finalize\<close>. A transaction that
  \<^verbatim>\<open>setup\<close> rejects ends with the exception; \<open>None\<close> is a null dereference.
\<close>

definition execute :: "Externals \<Rightarrow> Executive \<Rightarrow> Transaction \<Rightarrow> (error + Executive) option" where
  "execute X ex t =
     (case setup_tx X ex t of
        (Inl err, ex1) \<Rightarrow> Some (Inl err)
      | (Inr b, ex1) \<Rightarrow>
          (case go X ex1 of
             None \<Rightarrow> None
           | Some (c, ex2) \<Rightarrow>
               (case finalize ex2 of
                  None \<Rightarrow> None
                | Some ex3 \<Rightarrow> Some (Inr ex3))))"

text \<open>What a finalized transaction left to an address, and its end-gas.\<close>

definition settled :: "Address \<Rightarrow> (error + Executive) option \<Rightarrow> (u256 \<times> u256) option" where
  "settled a r =
     (case r of
        Some (Inr ex) \<Rightarrow> Some (balance (m_s ex) a, m_endGas ex)
      | _ \<Rightarrow> None)"

text \<open>The account a finalized transaction left at an address, if any.\<close>

definition left_at :: "Address \<Rightarrow> (error + Executive) option \<Rightarrow> Account option" where
  "left_at a r =
     (case r of
        Some (Inr ex) \<Rightarrow> m_cache (m_s ex) a
      | _ \<Rightarrow> None)"

subsection \<open>The address derivation\<close>


section \<open>Scenarios\<close>

text \<open>
  Concrete values on which the theorems below are instantiated. The addresses \<open>addr_A\<close>
  (a sender holding 1000), \<open>addr_B\<close>, \<open>addr_K\<close> (an account with code) and
  \<open>addr_M\<close> (the fee recipient) have a bit above the low 32, so that none is looked up in
  the registry of native contracts; address 1 is.
\<close>

definition addr_A :: Address where "addr_A = 0x100000001"
definition addr_B :: Address where "addr_B = 0x100000002"
definition addr_K :: Address where "addr_K = 0x100000003"
definition addr_M :: Address where "addr_M = 0x100000004"

definition s0 :: State where
  "s0 = \<lparr>m_cache = [addr_A \<mapsto> new_Account 1000, addr_K \<mapsto> setCode [0] (new_Account 0)],
         m_currentBlock = \<lparr>gasLimit = 1000, coinbaseAddress = addr_M\<rparr>,
         m_gasUsed = 0\<rparr>"

text \<open>A transaction of \<open>addr_A\<close>: nonce, value, receiver, gas price, gas limit.\<close>

definition tx :: "u256 \<Rightarrow> u256 \<Rightarrow> Address option \<Rightarrow> u256 \<Rightarrow> u256 \<Rightarrow> Transaction" where
  "tx n v r gp g = \<lparr>t_nonce = n, t_value = v, t_receiveAddress = r, t_gasPrice = gp, t_gas = g,
                    t_data = [], t_sender = addr_A\<rparr>"

text \<open>
  Modelled from the spec: the Executive as constructed over a state, at depth 0 (Executive.h
  is absent): no interpreter and no adapter yet (section 3); the other members, which
  \<^verbatim>\<open>setup\<close> and its successors assign, start at zero, false or empty.
\<close>

definition fresh :: "State \<Rightarrow> Executive" where
  "fresh s = \<lparr>m_s = s, m_t = tx 0 0 None 0 0, m_sender = 0, m_depth = 0, m_isCreation = False,
              m_newAddress = 0, m_endGas = 0, m_out = [], m_logs = [], m_excepted = False,
              m_vm = None, m_ext = None, execd = []\<rparr>"

text \<open>
  Stand-ins for the parameters: an intrinsic gas \<open>g\<close> for every payload, one native
  contract at address 1 that asks for 30 gas, one unit of gas per byte of deployed code, an
  address derivation that only adds sender and nonce, and the interpreter \<open>vm\<close>.
\<close>

definition externals :: "int \<Rightarrow> (State \<Rightarrow> ExtVM \<Rightarrow> u256 \<Rightarrow> VMRun) \<Rightarrow> Externals" where
  "externals g vm =
     \<lparr>txGas = (\<lambda>d. g),
      precompiled = [1 \<mapsto> \<lparr>p_gas = (\<lambda>d. 30), p_exec = (\<lambda>d. d)\<rparr>],
      c_createDataGas = 1,
      rlpList = (\<lambda>a n. [ucast a, ucast n]),
      sha3 = (\<lambda>b. 0x200000000 + ucast (sum_list b)),
      right160 = ucast,
      vm_go = vm\<rparr>"

text \<open>An interpreter that stops at once, having used no gas and changed nothing.\<close>

definition vm_idle :: "State \<Rightarrow> ExtVM \<Rightarrow> u256 \<Rightarrow> VMRun" where
  "vm_idle s e g =
     \<lparr>outcome = Returned [], vm_gas = g, run_sub = sub e, run_cache = m_cache s\<rparr>"

text \<open>
  An interpreter that ends with outcome \<open>oc\<close>, having used \<open>used\<close> gas and left the
  sub-state \<open>sb\<close>, with no change to the ledger state.
\<close>

definition vm_script :: "VMOutcome \<Rightarrow> u256 \<Rightarrow> SubState \<Rightarrow> State \<Rightarrow> ExtVM \<Rightarrow> u256 \<Rightarrow> VMRun" where
  "vm_script oc used sb s e g =
     \<lparr>outcome = oc, vm_gas = g - used, run_sub = sb, run_cache = m_cache s\<rparr>"

text \<open>An interpreter for code that sends one unit of its balance back to its caller.\<close>

definition vm_repay :: "State \<Rightarrow> ExtVM \<Rightarrow> u256 \<Rightarrow> VMRun" where
  "vm_repay s e g =
     \<lparr>outcome = Returned [], vm_gas = g, run_sub = sub e,
      run_cache = m_cache (addBalance (subBalance s (myAddress e) 1) (caller e) 1)\<rparr>"

text \<open>
  The Executive after \<^verbatim>\<open>setup\<close> of a transaction of \<open>addr_A\<close> with gas limit 100 at
  price 1 and intrinsic gas 10: a call of the contract \<open>addr_K\<close>, and a creation with
  the initialisation code \<open>[0]\<close>.
\<close>

definition ex_call :: "(State \<Rightarrow> ExtVM \<Rightarrow> u256 \<Rightarrow> VMRun) \<Rightarrow> Executive" where
  "ex_call vm = snd (setup_tx (externals 10 vm) (fresh s0) (tx 0 0 (Some addr_K) 1 100))"

definition ex_create :: "(State \<Rightarrow> ExtVM \<Rightarrow> u256 \<Rightarrow> VMRun) \<Rightarrow> Executive" where
  "ex_create vm =
     snd (setup_tx (externals 10 vm) (fresh s0) ((tx 0 0 None 1 100)\<lparr>t_data := [0]\<rparr>))"

text \<open>
  An Executive that is given to \<^verbatim>\<open>call\<close> as constructed, without \<^verbatim>\<open>setup\<close> (as for a
  call made from within running code): a call of the contract \<open>addr_K\<close> with 90 gas. Its
  transaction was never assigned.
\<close>

definition ex_nested :: "(State \<Rightarrow> ExtVM \<Rightarrow> u256 \<Rightarrow> VMRun) \<Rightarrow> Executive" where
  "ex_nested vm = snd (call (externals 10 vm) (fresh s0) addr_K addr_K addr_A 0 1 [] 90 addr_A)"

section \<open>The ledger-state operations, field by field\<close>

lemma balance_addBalance:
  "balance (addBalance s a v) b = (if b = a then balance s a + v else balance s b)"
  by (simp add: balance_def addBalance_def new_Account_def split: option.splits)

lemma transactionsFrom_addBalance: "transactionsFrom (addBalance s a v) b = transactionsFrom s b"
  by (simp add: transactionsFrom_def addBalance_def new_Account_def split: option.splits)

lemma code_addBalance: "code (addBalance s a v) b = code s b"
  by (simp add: code_def addBalance_def new_Account_def split: option.splits)

lemma addressHasCode_addBalance: "addressHasCode (addBalance s a v) b = addressHasCode s b"
  by (simp add: addressHasCode_def addBalance_def new_Account_def split: option.splits)

lemma block_addBalance: "m_currentBlock (addBalance s a v) = m_currentBlock s"
  by (simp add: addBalance_def split: option.splits)

lemma cache_addBalance_other: "b \<noteq> a \<Longrightarrow> m_cache (addBalance s a v) b = m_cache s b"
  by (simp add: addBalance_def split: option.splits)

lemma balance_subBalance:
  "balance (subBalance s a v) b = (if b = a then balance s a - v else balance s b)"
  by (simp add: balance_def subBalance_def new_Account_def split: option.splits)

lemma transactionsFrom_subBalance: "transactionsFrom (subBalance s a v) b = transactionsFrom s b"
  by (simp add: transactionsFrom_def subBalance_def new_Account_def split: option.splits)

lemma cache_subBalance_other: "b \<noteq> a \<Longrightarrow> m_cache (subBalance s a v) b = m_cache s b"
  by (simp add: subBalance_def split: option.splits)

lemma block_subBalance: "m_currentBlock (subBalance s a v) = m_currentBlock s"
  by (simp add: subBalance_def split: option.splits)

lemma balance_noteSending: "balance (noteSending s a) b = balance s b"
  by (simp add: balance_def noteSending_def new_Account_def split: option.splits)

lemma transactionsFrom_noteSending:
  "transactionsFrom (noteSending s a) b =
     (if b = a then transactionsFrom s a + 1 else transactionsFrom s b)"
  by (simp add: transactionsFrom_def noteSending_def new_Account_def split: option.splits)

lemma cache_noteSending_other: "b \<noteq> a \<Longrightarrow> m_cache (noteSending s a) b = m_cache s b"
  by (simp add: noteSending_def split: option.splits)

lemma block_noteSending: "m_currentBlock (noteSending s a) = m_currentBlock s"
  by (simp add: noteSending_def split: option.splits)

text \<open>A debit the balance covers does not wrap around.\<close>

lemma unat_debit: "\<not> (b::u256) < c \<Longrightarrow> unat (b - c) + unat c = unat b"
  by (simp add: not_less unat_sub word_le_nat_alt)

text \<open>The cost of line 66 is the cost over the natural numbers when that fits 256 bits.\<close>

lemma unat_cost:
  fixes v g p :: u256
  assumes "unat v + unat g * unat p < 2 ^ 256"
  shows "unat (v + g * p) = unat v + unat g * unat p"
proof -
  have "unat g * unat p < 2 ^ 256" using assms by simp
  then have "unat (g * p) = unat g * unat p"
    by (simp add: unat_word_ariths)
  then show ?thesis using assms by (simp add: unat_word_ariths)
qed

lemma addressHasCode_code: "addressHasCode s a = (code s a \<noteq> [])"
  by (simp add: addressHasCode_def code_def split: option.splits)

text \<open>What \<^verbatim>\<open>finalize\<close> does to the account mapping, address by address.\<close>

lemma kill_dead: "kill a = dead_Account"
  by (simp add: kill_def dead_Account_def)

lemma kill_all_apply: "kill_all as c a = (if a \<in> set as then Some dead_Account else c a)"
  by (induction as arbitrary: c) (simp_all add: kill_dead)

lemma balance_kill_all:
  "balance (s\<lparr>m_cache := kill_all as (m_cache s)\<rparr>) a = (if a \<in> set as then 0 else balance s a)"
  by (simp add: balance_def kill_all_apply dead_Account_def)

lemma code_kill_all:
  "code (s\<lparr>m_cache := kill_all as (m_cache s)\<rparr>) a = (if a \<in> set as then [] else code s a)"
  by (simp add: code_def kill_all_apply dead_Account_def)

lemma balance_setCode:
  "balance (s\<lparr>m_cache := (m_cache s)(n \<mapsto> setCode out (cache_at (m_cache s) n))\<rparr>) a = balance s a"
  by (simp add: balance_def setCode_def cache_at_def dead_Account_def split: option.splits)

lemma code_setCode:
  "code (s\<lparr>m_cache := (m_cache s)(n \<mapsto> setCode out (cache_at (m_cache s) n))\<rparr>) a =
     (if a = n then out else code s a)"
  by (simp add: code_def setCode_def cache_at_def dead_Account_def split: option.splits)

lemma finalize_total:
  "(isCreation (m_t ex) \<longrightarrow> m_ext ex \<noteq> None) \<Longrightarrow> \<exists>ex'. finalize ex = Some ex'"
  by (auto simp add: finalize_def Let_def split: option.splits)

lemma finalize_balance:
  assumes "finalize ex = Some ex'"
  shows "balance (m_s ex') a =
     (if a \<in> set (pending ex) then 0
      else balance (m_s ex) a
        + (if a = m_sender ex then m_endGas ex * t_gasPrice (m_t ex) else 0)
        + (if a = coinbaseAddress (m_currentBlock (m_s ex))
           then (t_gas (m_t ex) - m_endGas ex) * t_gasPrice (m_t ex) else 0))"
  using assms
  by (auto simp add: finalize_def Let_def pending_def balance_kill_all balance_addBalance
      balance_setCode block_addBalance split: option.splits if_splits)

lemma finalize_code:
  assumes "finalize ex = Some ex'"
  shows "code (m_s ex') a =
     (if a \<in> set (pending ex) then []
      else if isCreation (m_t ex) \<and> a = m_newAddress ex then m_out ex
      else code (m_s ex) a)"
  using assms
  by (auto simp add: finalize_def Let_def pending_def code_kill_all code_addBalance
      code_setCode split: option.splits if_splits)

lemma finalize_killed:
  assumes "finalize ex = Some ex'" and "a \<in> set (pending ex)"
  shows "m_cache (m_s ex') a = Some dead_Account"
  using assms
  by (auto simp add: finalize_def Let_def pending_def kill_all_apply split: option.splits if_splits)

lemma finalize_members:
  assumes "finalize ex = Some ex'"
  shows "m_endGas ex' = m_endGas ex" "m_t ex' = m_t ex" "m_sender ex' = m_sender ex"
    "m_out ex' = m_out ex" "m_ext ex' = m_ext ex"
  using assms
  by (auto simp add: finalize_def Let_def split: option.splits if_splits)

text \<open>The refund of \<^verbatim>\<open>go\<close> over the natural numbers, for an interpreter that ends with
  no more gas than the transaction's limit: neither the subtraction nor the sum wraps.\<close>

lemma unat_refund:
  fixes raw lim cnt :: u256
  assumes "raw \<le> lim"
  shows "unat (min ((lim - raw) div 2) cnt) = min ((unat lim - unat raw) div 2) (unat cnt)"
proof -
  have a: "unat (lim - raw) = unat lim - unat raw"
    using assms by (simp add: unat_sub)
  have b: "unat ((lim - raw) div 2) = (unat lim - unat raw) div 2"
    by (simp add: unat_div a)
  show ?thesis
    by (simp add: min_def word_le_nat_alt b)
qed

lemma refund_no_wrap:
  fixes raw lim cnt :: u256
  assumes "raw \<le> lim"
  shows "unat (raw + min ((lim - raw) div 2) cnt) =
         unat raw + min ((unat lim - unat raw) div 2) (unat cnt)"
proof -
  have le: "unat raw \<le> unat lim" using assms by (simp add: word_le_nat_alt)
  have lt: "unat lim < 2 ^ 256" using unsigned_less [of lim] by simp
  have "unat raw + (unat lim - unat raw) div 2 \<le> unat lim" using le by arith
  then have "unat raw + min ((unat lim - unat raw) div 2) (unat cnt) \<le> unat lim"
    by (simp add: min_def)
  then have "unat raw + min ((unat lim - unat raw) div 2) (unat cnt) < 2 ^ 256"
    using lt by (rule le_less_trans)
  then show ?thesis
    by (simp add: unat_word_ariths unat_refund [OF assms])
qed

text \<open>\<^verbatim>\<open>addBalance\<close> changes nothing of an account but its balance, so the account that
  receives the code of a creation keeps it, with its nonce and storage.\<close>

lemma cache_addBalance_kept:
  assumes "m_cache s a = Some acc0"
  shows "\<exists>acc. m_cache (addBalance s b v) a = Some acc \<and> a_nonce acc = a_nonce acc0 \<and>
           a_code acc = a_code acc0 \<and> a_storage acc = a_storage acc0 \<and>
           a_isAlive acc = a_isAlive acc0"
  using assms by (cases "a = b") (auto simp add: addBalance_def split: option.splits)

lemma finalize_installs_at:
  assumes "finalize ex = Some ex'" and "isCreation (m_t ex)"
    and "m_newAddress ex \<notin> set (pending ex)"
  shows "\<exists>acc. m_cache (m_s ex') (m_newAddress ex) = Some acc \<and>
           a_code acc = m_out ex \<and>
           a_nonce acc = a_nonce (cache_at (m_cache (m_s ex)) (m_newAddress ex)) \<and>
           a_storage acc = a_storage (cache_at (m_cache (m_s ex)) (m_newAddress ex)) \<and>
           a_isAlive acc = a_isAlive (cache_at (m_cache (m_s ex)) (m_newAddress ex))"
proof -
  let ?n = "m_newAddress ex"
  let ?s1 = "(m_s ex)\<lparr>m_cache := (m_cache (m_s ex))(?n \<mapsto>
      setCode (m_out ex) (cache_at (m_cache (m_s ex)) ?n))\<rparr>"
  let ?s2 = "addBalance ?s1 (m_sender ex) (m_endGas ex * t_gasPrice (m_t ex))"
  let ?s3 = "addBalance ?s2 (coinbaseAddress (m_currentBlock (m_s ex)))
      ((t_gas (m_t ex) - m_endGas ex) * t_gasPrice (m_t ex))"
  obtain e where e: "m_ext ex = Some e"
    using assms(1,2) by (auto simp add: finalize_def split: option.splits if_splits)
  have n: "?n \<notin> set (suicides (sub e))" using assms(3) e by (simp add: pending_def)
  have fin: "m_cache (m_s ex') ?n = m_cache ?s3 ?n"
    using assms(1,2) e n
    by (auto simp add: finalize_def Let_def block_addBalance kill_all_apply)
  have "m_cache ?s1 ?n = Some (setCode (m_out ex) (cache_at (m_cache (m_s ex)) ?n))" by simp
  from cache_addBalance_kept [OF this]
  obtain acc2 where "m_cache ?s2 ?n = Some acc2"
    "a_nonce acc2 = a_nonce (cache_at (m_cache (m_s ex)) ?n)"
    "a_code acc2 = m_out ex"
    "a_storage acc2 = a_storage (cache_at (m_cache (m_s ex)) ?n)"
    "a_isAlive acc2 = a_isAlive (cache_at (m_cache (m_s ex)) ?n)"
    by (auto simp add: setCode_def)
  with cache_addBalance_kept [OF this(1)] fin show ?thesis by metis
qed

lemma transactionsFrom_kill_all:
  "transactionsFrom (s\<lparr>m_cache := kill_all as (m_cache s)\<rparr>) a =
     (if a \<in> set as then 0 else transactionsFrom s a)"
  by (simp add: transactionsFrom_def kill_all_apply dead_Account_def)

lemma transactionsFrom_setCode:
  "transactionsFrom (s\<lparr>m_cache := (m_cache s)(n \<mapsto> setCode out (cache_at (m_cache s) n))\<rparr>) a
     = transactionsFrom s a"
  by (simp add: transactionsFrom_def setCode_def cache_at_def dead_Account_def split: option.splits)

lemma finalize_nonce:
  assumes "finalize ex = Some ex'"
  shows "transactionsFrom (m_s ex') a =
     (if a \<in> set (pending ex) then 0 else transactionsFrom (m_s ex) a)"
  using assms
  by (auto simp add: finalize_def Let_def pending_def transactionsFrom_kill_all
      transactionsFrom_addBalance transactionsFrom_setCode split: option.splits if_splits)

section \<open>What setup and go leave behind\<close>

lemma balance_cache_upd_other:
  "a \<noteq> n \<Longrightarrow> balance (s\<lparr>m_cache := (m_cache s)(n \<mapsto> acc)\<rparr>) a = balance s a"
  by (simp add: balance_def)

lemma addressHasCode_subBalance: "addressHasCode (subBalance s a v) b = addressHasCode s b"
  by (simp add: addressHasCode_def subBalance_def new_Account_def split: option.splits)

lemma addressHasCode_noteSending: "addressHasCode (noteSending s a) b = addressHasCode s b"
  by (simp add: addressHasCode_def noteSending_def new_Account_def split: option.splits)

text \<open>After \<^verbatim>\<open>setup\<close> on a new Executive an interpreter comes with an adapter, and so
  does a creation: \<^verbatim>\<open>go\<close> and \<^verbatim>\<open>finalize\<close> then dereference no null pointer.\<close>

lemma setup_leaves_frame:
  assumes "m_vm ex0 = None" and "m_ext ex0 = None"
    and "setup_tx X ex0 t = (Inr b, ex1)"
  shows "m_t ex1 = t \<and> (m_vm ex1 \<noteq> None \<longrightarrow> m_ext ex1 \<noteq> None) \<and>
         (isCreation t \<longrightarrow> m_ext ex1 \<noteq> None)"
  using assms
  by (auto simp add: setup_tx_def call_def create_def Let_def isCreation_def
      split: if_splits option.splits prod.splits)

lemma go_total:
  assumes "m_vm ex \<noteq> None \<longrightarrow> m_ext ex \<noteq> None"
  shows "\<exists>c ex'. go X ex = Some (c, ex') \<and> m_t ex' = m_t ex \<and>
           (m_ext ex \<noteq> None \<longrightarrow> m_ext ex' \<noteq> None)"
  using assms
  by (auto simp add: go_def Let_def revert_def split: option.splits VMOutcome.splits)

lemma setup_accepted:
  assumes "setup_tx X ex0 t = (Inr b, ex1)"
  shows "m_t ex1 = t" and "m_sender ex1 = t_sender t"
    and "m_currentBlock (m_s ex1) = m_currentBlock (m_s ex0)"
    and "t_nonce t = transactionsFrom (m_s ex0) (t_sender t)"
    and "m_ext ex0 = None \<Longrightarrow> m_ext ex1 = Some e \<Longrightarrow> m_origCache e = m_cache (m_s ex1)"
    and "isCreation t \<Longrightarrow>
           m_newAddress ex1 = right160 X (sha3 X (rlpList X (t_sender t) (t_nonce t)))"
  using assms
  by (auto simp add: setup_tx_def call_def create_def Let_def isCreation_def new_ExtVM_def
      block_addBalance block_subBalance block_noteSending
      transactionsFrom_subBalance transactionsFrom_noteSending
      split: if_splits option.splits prod.splits)

lemma setup_accepted_balance:
  assumes "setup_tx X ex0 t = (Inr b, ex1)"
    and "t_receiveAddress t \<noteq> Some (t_sender t)"
    and "isCreation t \<longrightarrow> right160 X (sha3 X (rlpList X (t_sender t) (t_nonce t))) \<noteq> t_sender t"
  shows "balance (m_s ex1) (t_sender t) =
           balance (m_s ex0) (t_sender t) - (t_value t + t_gas t * t_gasPrice t)"
  using assms
  by (auto simp add: setup_tx_def call_def create_def Let_def isCreation_def
      balance_addBalance balance_subBalance balance_noteSending balance_cache_upd_other
      transactionsFrom_subBalance transactionsFrom_noteSending
      split: if_splits option.splits prod.splits)

lemma go_effect:
  assumes "go X ex1 = Some (c, ex2)"
  shows "m_t ex2 = m_t ex1" and "m_sender ex2 = m_sender ex1"
    and "m_vm ex1 = None \<Longrightarrow> ex2 = ex1"
    and "m_vm ex1 = Some g \<Longrightarrow> m_ext ex1 = Some e \<Longrightarrow>
           (m_s ex2 = (m_s ex1)\<lparr>m_cache := run_cache (vm_go X (m_s ex1) e g)\<rparr> \<or>
            m_s ex2 = (m_s ex1)\<lparr>m_cache := m_origCache e\<rparr>) \<and>
           (pending ex2 = suicides (run_sub (vm_go X (m_s ex1) e g)) \<or> pending ex2 = [])"
  using assms
  by (auto simp add: go_def Let_def revert_def pending_def sub_clear_def
      split: option.splits VMOutcome.splits if_splits)

section \<open>The scenarios, evaluated\<close>

lemmas scenario_defs =
  addr_A_def addr_B_def addr_K_def addr_M_def s0_def tx_def fresh_def externals_def
  vm_idle_def new_Account_def setCode_def

lemmas eval_defs =
  setup_tx_def call_def create_def Let_def scenario_defs transactionsFrom_def balance_def
  gasUsed_def find_precompiled_def addressHasCode_def code_def addBalance_def subBalance_def
  noteSending_def new_ExtVM_def

lemma ex_call_frame:
  "m_vm (ex_call vm) = Some 90"
  "\<exists>e. m_ext (ex_call vm) = Some e \<and> sub e = sub_clear \<and> caller e = addr_A \<and> myAddress e = addr_K"
  "m_t (ex_call vm) = tx 0 0 (Some addr_K) 1 100"
  "m_isCreation (ex_call vm) = False"
  "m_sender (ex_call vm) = addr_A"
  "m_endGas (ex_call vm) = 0"
  "m_logs (ex_call vm) = []"
  "balance (m_s (ex_call vm)) addr_A = 900"
  by (simp_all add: ex_call_def eval_defs)

lemma ex_create_frame:
  "m_vm (ex_create vm) = Some 90"
  "\<exists>e. m_ext (ex_create vm) = Some e \<and> sub e = sub_clear \<and> caller e = addr_A \<and>
       myAddress e = 0x200000001"
  "m_t (ex_create vm) = (tx 0 0 None 1 100)\<lparr>t_data := [0]\<rparr>"
  "m_isCreation (ex_create vm) = True"
  "m_sender (ex_create vm) = addr_A"
  "m_newAddress (ex_create vm) = 0x200000001"
  "balance (m_s (ex_create vm)) addr_A = 900"
  by (simp_all add: ex_create_def eval_defs)

lemma ex_create_more:
  "m_cache (m_s (ex_create vm)) 0x200000001 = Some (new_Account 0)"
  "isCreation (m_t (ex_create vm))"
  "m_s (ex_create vm) =
     s0\<lparr>m_cache := (m_cache s0)(addr_A \<mapsto> (new_Account 900)\<lparr>a_nonce := 1\<rparr>,
                                    0x200000001 \<mapsto> new_Account 0)\<rparr>"
  by (simp_all add: ex_create_def eval_defs isCreation_def)

section \<open>Validation and the upfront charge\<close>

text \<open>
  What \<^verbatim>\<open>setup\<close> does, in the arithmetic of \<^verbatim>\<open>u256\<close>. It checks the nonce, the
  intrinsic gas, the sender's balance and the block's gas budget in this order, and throws
  \<open>InvalidNonce\<close>, \<open>OutOfGas\<close>, \<open>NotEnoughCash\<close> or \<open>BlockGasLimitReached\<close> at the
  first check that fails, leaving the ledger state as it found it. When all four checks
  pass, what \<^verbatim>\<open>setup\<close> returns is what \<^verbatim>\<open>create\<close> or \<^verbatim>\<open>call\<close> returns on the state
  \<open>s1\<close>, in which the sender's nonce is one more and the sender's balance is less by
  \<open>cost\<close>, all other accounts being as before. The cost is the sum of line 66, which
  wraps around: it is \<open>value + gas * gasPrice\<close> over the natural numbers only when that
  is below \<open>2 ^ 256\<close>.
\<close>

lemma setup_in_u256:
  "(let s = m_s ex; a = t_sender t; req = transactionsFrom s a; g = txGas X (t_data t);
        cost = t_value t + t_gas t * t_gasPrice t;
        nonce_ok = (t_nonce t = req);
        gas_ok = (\<not> uint (t_gas t) < g);
        cash_ok = (\<not> balance s a < cost);
        block_ok = (\<not> gasUsed s + t_gas t > gasLimit (m_currentBlock s));
        r = setup_tx X ex t;
        s1 = subBalance (noteSending s a) a cost;
        ex1 = ex\<lparr>m_t := t, m_sender := a, m_s := s1\<rparr>
    in (\<not> nonce_ok \<longrightarrow> fst r = Inl (InvalidNonce req (t_nonce t)) \<and> m_s (snd r) = s) \<and>
       (nonce_ok \<and> \<not> gas_ok \<longrightarrow> fst r = Inl (OutOfGas g (uint (t_gas t))) \<and> m_s (snd r) = s) \<and>
       (nonce_ok \<and> gas_ok \<and> \<not> cash_ok \<longrightarrow>
          fst r = Inl (NotEnoughCash (uint cost) (uint (balance s a))) \<and> m_s (snd r) = s) \<and>
       (nonce_ok \<and> gas_ok \<and> cash_ok \<and> \<not> block_ok \<longrightarrow>
          fst r = Inl (BlockGasLimitReached (uint (gasLimit (m_currentBlock s) - gasUsed s))
                     (uint (t_gas t))) \<and> m_s (snd r) = s) \<and>
       (nonce_ok \<and> gas_ok \<and> cash_ok \<and> block_ok \<longrightarrow>
          transactionsFrom s1 a = transactionsFrom s a + 1 \<and>
          balance s1 a = balance s a - cost \<and>
          unat (balance s1 a) + unat cost = unat (balance s a) \<and>
          (unat (t_value t) + unat (t_gas t) * unat (t_gasPrice t) < 2 ^ 256 \<longrightarrow>
             unat cost = unat (t_value t) + unat (t_gas t) * unat (t_gasPrice t)) \<and>
          (\<forall>b. b \<noteq> a \<longrightarrow> m_cache s1 b = m_cache s b) \<and>
          r = (case t_receiveAddress t of
                 None \<Rightarrow>
                   (let (b, ex') = create X ex1 a (t_value t) (t_gasPrice t)
                                     (t_gas t - word_of_int g) (t_data t) a
                    in (Inr b, ex'))
               | Some rcv \<Rightarrow>
                   (let (b, ex') = call X ex1 rcv rcv a (t_value t) (t_gasPrice t) (t_data t)
                                     (t_gas t - word_of_int g) a
                    in (Inr b, ex')))))"
  unfolding Let_def
  apply (intro conjI impI)
  apply (simp_all add: setup_tx_def Let_def balance_subBalance balance_noteSending
      transactionsFrom_subBalance transactionsFrom_noteSending unat_debit unat_cost
      cache_subBalance_other cache_noteSending_other split: option.splits)
  done

text \<open>
  C1. The affordability check does not hold back every transaction the sender cannot pay
  for, and the debit is then not \<open>value + gasLimit * gasPrice\<close>. On \<open>s0\<close> the sender
  \<open>addr_A\<close> holds 1000. A transaction with value 5 and gas limit 4 at gas price
  \<open>2 ^ 254\<close> costs \<open>2 ^ 256 + 5\<close>; line 66 computes 5, the comparison of line 69 passes
  ("Avoid unaffordable transactions"), \<^verbatim>\<open>setup\<close> returns true and the sender is debited 5.
  With an intrinsic gas of 1 the end-gas is 3, and \<^verbatim>\<open>finalize\<close> credits the sender
  \<open>3 * 2 ^ 254\<close> and the fee recipient \<open>2 ^ 254\<close>, which nobody paid.
\<close>

theorem setup_accepts_unaffordable:
  "balance s0 addr_A = 1000 \<and>
   unat (5 :: u256) + unat (4 :: u256) * unat (2 ^ 254 :: u256) = 2 ^ 256 + 5 \<and>
   (5 :: u256) + 4 * 2 ^ 254 = 5 \<and>
   fst (setup_tx (externals 1 vm_idle) (fresh s0) (tx 0 5 (Some addr_B) (2 ^ 254) 4)) = Inr True \<and>
   balance (m_s (snd (setup_tx (externals 1 vm_idle) (fresh s0)
      (tx 0 5 (Some addr_B) (2 ^ 254) 4)))) addr_A = 995 \<and>
   settled addr_A (execute (externals 1 vm_idle) (fresh s0) (tx 0 5 (Some addr_B) (2 ^ 254) 4))
     = Some (995 + 3 * 2 ^ 254, 3) \<and>
   settled addr_M (execute (externals 1 vm_idle) (fresh s0) (tx 0 5 (Some addr_B) (2 ^ 254) 4))
     = Some (2 ^ 254, 3)"
  by (simp add: settled_def execute_def go_def finalize_def isCreation_def pending_def eval_defs)

section \<open>Call dispatch\<close>

text \<open>
  C2. Whatever its arguments, \<^verbatim>\<open>call\<close> leaves the ledger state it was given with
  \<open>val\<close> credited to the receiver, in every branch: the credit is made before the
  registry of native contracts is consulted and before the code check. For a receiver in
  the registry whose gas requirement exceeds the gas supplied, \<^verbatim>\<open>call\<close> returns false
  with end-gas 0, \<^verbatim>\<open>exec\<close> is not called (no interpreter or adapter is made either), and
  the receiver still holds the credit. With enough gas, \<^verbatim>\<open>exec\<close> is called once.
\<close>

theorem call_credits_receiver_first:
  "(let r = call X ex rcv ca sndr v gp d g orig
    in m_s (snd r) = addBalance (m_s ex) rcv v \<and>
       balance (m_s (snd r)) rcv = balance (m_s ex) rcv + v \<and>
       (\<forall>k p. find_precompiled X rcv = Some (k, p) \<and> uint g < p_gas p d \<longrightarrow>
          fst r = False \<and> m_endGas (snd r) = 0 \<and> execd (snd r) = execd ex \<and>
          m_vm (snd r) = m_vm ex \<and> m_ext (snd r) = m_ext ex \<and>
          balance (m_s (snd r)) rcv = balance (m_s ex) rcv + v) \<and>
       (\<forall>k p. find_precompiled X rcv = Some (k, p) \<and> \<not> uint g < p_gas p d \<longrightarrow>
          fst r = True \<and> m_endGas (snd r) = word_of_int (uint g - p_gas p d) \<and>
          execd (snd r) = execd ex @ [(k, d)]))"
  by (simp add: call_def Let_def balance_addBalance split: option.splits)

text \<open>A call of the native contract at address 1, which asks for 30 gas, with 20 gas and
  a value of 100.\<close>

theorem call_credits_receiver_first_witness:
  "fst (call (externals 0 vm_idle) (fresh s0) 1 1 addr_A 100 2 [] 20 addr_A) = False \<and>
   m_endGas (snd (call (externals 0 vm_idle) (fresh s0) 1 1 addr_A 100 2 [] 20 addr_A)) = 0 \<and>
   execd (snd (call (externals 0 vm_idle) (fresh s0) 1 1 addr_A 100 2 [] 20 addr_A)) = [] \<and>
   balance s0 1 = 0 \<and>
   balance (m_s (snd (call (externals 0 vm_idle) (fresh s0) 1 1 addr_A 100 2 [] 20 addr_A))) 1 = 100"
proof -
  have pre: "find_precompiled (externals 0 vm_idle) 1 =
      Some (1, \<lparr>p_gas = (\<lambda>d. 30), p_exec = (\<lambda>d. d)\<rparr>)"
    by (simp add: find_precompiled_def externals_def)
  have bal: "balance s0 1 = 0"
    by (simp add: balance_def s0_def addr_A_def addr_K_def)
  have st: "m_s (fresh s0) = s0" "execd (fresh s0) = []"
    by (simp_all add: fresh_def)
  show ?thesis
    using call_credits_receiver_first
      [of "externals 0 vm_idle" "fresh s0" 1 1 addr_A 100 2 "[]" 20 addr_A]
    by (simp add: Let_def pre bal st balance_addBalance)
qed

text \<open>
  C10. When the receive address is not in the registry of native contracts and the code
  address has code, \<^verbatim>\<open>call\<close> makes an interpreter with the gas supplied and an adapter
  whose code is the code stored at the receive address, and returns false (not concluded).
  The code address only decides whether a frame is made: where the receiver has no code,
  the frame runs empty code although the code address, which is then another address, has
  some.
\<close>

theorem call_runs_receivers_code:
  assumes "find_precompiled X rcv = None"
    and "addressHasCode (m_s ex) ca"
  shows "\<exists>ex'. call X ex rcv ca sndr v gp d g orig = (False, ex') \<and>
           m_vm ex' = Some g \<and>
           m_ext ex' = Some (new_ExtVM (addBalance (m_s ex) rcv v) rcv sndr orig v gp d
                               (code (m_s ex) rcv) (m_depth ex)) \<and>
           e_code (the (m_ext ex')) = code (m_s ex) rcv \<and>
           (code (m_s ex) rcv = [] \<longrightarrow>
              e_code (the (m_ext ex')) = [] \<and> code (m_s ex) ca \<noteq> [] \<and> rcv \<noteq> ca)"
proof -
  have "code (m_s ex) ca \<noteq> []"
    using assms(2) by (simp add: addressHasCode_code)
  then show ?thesis
    using assms
    by (auto simp add: call_def Let_def addressHasCode_addBalance code_addBalance new_ExtVM_def)
qed

text \<open>A call that receives at \<open>addr_B\<close>, which has no code, with the code address
  \<open>addr_K\<close>, whose code is \<open>[0]\<close>.\<close>

theorem call_runs_receivers_code_witness:
  "find_precompiled (externals 0 vm_idle) addr_B = None \<and> addressHasCode s0 addr_K \<and>
   addr_B \<noteq> addr_K \<and> code s0 addr_K = [0] \<and>
   (\<exists>ex'. call (externals 0 vm_idle) (fresh s0) addr_B addr_K addr_A 100 2 [] 40 addr_A
             = (False, ex') \<and>
      m_vm ex' = Some 40 \<and> e_code (the (m_ext ex')) = [])"
proof -
  have h1: "find_precompiled (externals 0 vm_idle) addr_B = None"
    by (simp add: find_precompiled_def scenario_defs)
  have h2: "addressHasCode (m_s (fresh s0)) addr_K"
    by (simp add: addressHasCode_def scenario_defs)
  have h3: "code (m_s (fresh s0)) addr_B = []"
    by (simp add: code_def scenario_defs)
  have h4: "code s0 addr_K = [0]" "addr_B \<noteq> addr_K"
    by (simp_all add: code_def scenario_defs)
  from call_runs_receivers_code [OF h1 h2, of addr_A 100 2 "[]" 40 addr_A] h3
  obtain ex' where
    "call (externals 0 vm_idle) (fresh s0) addr_B addr_K addr_A 100 2 [] 40 addr_A = (False, ex')"
    "m_vm ex' = Some 40" "e_code (the (m_ext ex')) = []"
    by auto
  with h1 h2 h4 show ?thesis by (auto simp: fresh_def)
qed

section \<open>Driving the interpreter\<close>

text \<open>
  The refund of \<^verbatim>\<open>go\<close>, in the arithmetic of \<^verbatim>\<open>u256\<close>. When the interpreter of a
  frame returns normally, with \<open>raw\<close> gas left and the refund counter at \<open>cnt\<close>,
  \<^verbatim>\<open>go\<close> returns true and the end-gas is \<open>raw\<close> plus the refund
  \<open>min ((gasLimit - raw) div 2) cnt\<close> (less the deposit for the code of a creation that
  can pay it). The difference \<open>gasLimit - raw\<close> wraps around; where \<open>raw\<close> is at most
  the gas limit of the transaction it does not, and the refund is then at most half of
  \<open>gasLimit - raw\<close> over the natural numbers.
\<close>

lemma go_refund_in_u256:
  assumes "m_vm ex = Some g" and "m_ext ex = Some e"
    and "outcome (vm_go X (m_s ex) e g) = Returned out"
  shows "(let raw = vm_gas (vm_go X (m_s ex) e g);
              cnt = refunds (run_sub (vm_go X (m_s ex) e g));
              refund = min ((t_gas (m_t ex) - raw) div 2) cnt;
              deposit = word_of_nat (length out) * c_createDataGas X
          in \<exists>ex'. go X ex = Some (True, ex') \<and>
               m_endGas ex' =
                 (if m_isCreation ex \<and> deposit \<le> raw + refund then raw + refund - deposit
                  else raw + refund) \<and>
               refund \<le> (t_gas (m_t ex) - raw) div 2 \<and>
               refund \<le> cnt \<and>
               (raw \<le> t_gas (m_t ex) \<longrightarrow>
                  unat (raw + refund) =
                    unat raw + min ((unat (t_gas (m_t ex)) - unat raw) div 2) (unat cnt) \<and>
                  unat refund \<le> (unat (t_gas (m_t ex)) - unat raw) div 2 \<and>
                  unat refund \<le> unat cnt))"
proof -
  let ?r = "vm_go X (m_s ex) e g"
  let ?lim = "t_gas (m_t ex)"
  have cap: "vm_gas ?r \<le> ?lim \<Longrightarrow>
      unat (vm_gas ?r + min ((?lim - vm_gas ?r) div 2) (refunds (run_sub ?r))) =
        unat (vm_gas ?r) + min ((unat ?lim - unat (vm_gas ?r)) div 2) (unat (refunds (run_sub ?r))) \<and>
      unat (min ((?lim - vm_gas ?r) div 2) (refunds (run_sub ?r)))
        \<le> (unat ?lim - unat (vm_gas ?r)) div 2 \<and>
      unat (min ((?lim - vm_gas ?r) div 2) (refunds (run_sub ?r))) \<le> unat (refunds (run_sub ?r))"
    by (simp add: refund_no_wrap unat_refund)
  show ?thesis
    using assms cap by (simp add: go_def Let_def)
qed

text \<open>
  C3. The refund can exceed half of the gas consumed. \<^verbatim>\<open>go\<close> takes the gas limit from
  \<^verbatim>\<open>m_t\<close>, which only \<^verbatim>\<open>setup\<close> assigns. In a frame that \<^verbatim>\<open>call\<close> makes on an
  Executive as constructed, the gas limit is 0: with 90 gas supplied, 60 used and 50 of
  refunds counted, \<open>0 - 30\<close> wraps around, the cap is far above the counter, and the
  whole counter is refunded: the end-gas is \<open>30 + 50 = 80\<close>, where half of the gas
  consumed is 30.
\<close>

theorem go_refund_exceeds_half_used:
  "t_gas (m_t (ex_nested (vm_script (Returned []) 60 \<lparr>suicides = [], logs = [], refunds = 50\<rparr>))) = 0 \<and>
   m_vm (ex_nested (vm_script (Returned []) 60 \<lparr>suicides = [], logs = [], refunds = 50\<rparr>)) = Some 90 \<and>
   map_option (m_endGas \<circ> snd)
     (go (externals 10 (vm_script (Returned []) 60 \<lparr>suicides = [], logs = [], refunds = 50\<rparr>))
         (ex_nested (vm_script (Returned []) 60 \<lparr>suicides = [], logs = [], refunds = 50\<rparr>)))
     = Some 80 \<and>
   (90 :: u256) - 60 = 30 \<and> (80 :: u256) - 30 = 50 \<and> \<not> (50 :: nat) \<le> 60 div 2 \<and>
   min (((0 :: u256) - 30) div 2) 50 = 50"
  by (simp add: ex_nested_def go_def vm_script_def sub_clear_def eval_defs)

text \<open>
  C6. When the interpreter throws a \<^verbatim>\<open>VMException\<close> (other than the step-limit
  signal), \<^verbatim>\<open>go\<close> does not throw: it returns true, with end-gas 0, the excepted flag
  set, and the adapter reverted, so that its logs, refund counter and self-destruct set are
  empty; the logs and output of the Executive are as before the run, and
  \<^verbatim>\<open>finalize\<close> then goes through.
\<close>

theorem go_recovers_from_vm_fault:
  assumes "m_vm ex = Some g" and "m_ext ex = Some e"
    and "outcome (vm_go X (m_s ex) e g) = ThrownVMException"
  shows "\<exists>ex' e'. go X ex = Some (True, ex') \<and>
           m_endGas ex' = 0 \<and>
           m_excepted ex' \<and>
           (m_s ex', e') = revert ((m_s ex)\<lparr>m_cache := run_cache (vm_go X (m_s ex) e g)\<rparr>)
                             (e\<lparr>sub := run_sub (vm_go X (m_s ex) e g)\<rparr>) \<and>
           m_ext ex' = Some e' \<and>
           logs (sub e') = [] \<and> refunds (sub e') = 0 \<and> suicides (sub e') = [] \<and>
           pending ex' = [] \<and>
           m_logs ex' = m_logs ex \<and>
           m_out ex' = m_out ex \<and>
           (\<exists>ex''. finalize ex' = Some ex'')"
proof -
  let ?r = "vm_go X (m_s ex) e g"
  obtain ex' where go: "go X ex = Some (True, ex')"
    and f: "m_endGas ex' = 0" "m_excepted ex'" "m_ext ex' = Some (e\<lparr>sub := sub_clear\<rparr>)"
      "m_logs ex' = m_logs ex" "m_out ex' = m_out ex"
      "m_s ex' = (m_s ex)\<lparr>m_cache := m_origCache e\<rparr>"
    using assms by (simp add: go_def Let_def revert_def)
  have "\<exists>ex''. finalize ex' = Some ex''"
    by (rule finalize_total) (simp add: f)
  with go f show ?thesis
    by (simp add: pending_def sub_clear_def revert_def)
qed

text \<open>A call whose interpreter faults after it has logged, counted refunds and marked
  \<open>addr_B\<close> for destruction.\<close>

theorem go_recovers_from_vm_fault_witness:
  "\<exists>ex'. go (externals 10 (vm_script ThrownVMException 90
                \<lparr>suicides = [addr_B], logs = [[7]], refunds = 50\<rparr>))
            (ex_call (vm_script ThrownVMException 90
                \<lparr>suicides = [addr_B], logs = [[7]], refunds = 50\<rparr>))
          = Some (True, ex') \<and>
         m_endGas ex' = 0 \<and> m_excepted ex' \<and> pending ex' = [] \<and> m_logs ex' = []"
proof -
  let ?vm = "vm_script ThrownVMException 90 \<lparr>suicides = [addr_B], logs = [[7]], refunds = 50\<rparr>"
  obtain e where e: "m_ext (ex_call ?vm) = Some e" using ex_call_frame(2) by blast
  have run: "outcome (vm_go (externals 10 ?vm) (m_s (ex_call ?vm)) e 90) = ThrownVMException"
    by (simp add: externals_def vm_script_def)
  show ?thesis
    using go_recovers_from_vm_fault [OF ex_call_frame(1) e run] ex_call_frame(7)
    by auto
qed

text \<open>
  C8, with the condition under which the account stays. When the interpreter of a creation
  frame returns normally with the output \<open>out\<close>,
  \<^verbatim>\<open>go\<close> compares the deposit, \<open>length out * c_createDataGas\<close>, with the end-gas
  \<open>e1\<close> that already includes the refund. If \<open>e1\<close> covers the deposit, the deposit is
  deducted (without wrapping) and the output is kept, to become the code of the new address
  at \<^verbatim>\<open>finalize\<close>. Otherwise the end-gas stays \<open>e1\<close> and the output is emptied:
  after \<^verbatim>\<open>finalize\<close> the new address has no code, and unless the run marked it for
  destruction its account is there, with the nonce, storage and liveness the run left it.
  \<^verbatim>\<open>go\<close> itself leaves the accounts as the interpreter left them.
\<close>

theorem go_charges_code_deposit:
  assumes "m_vm ex = Some g" and "m_ext ex = Some e"
    and "m_isCreation ex" and "isCreation (m_t ex)"
    and "outcome (vm_go X (m_s ex) e g) = Returned out"
  shows "(let r = vm_go X (m_s ex) e g;
              e1 = vm_gas r + min ((t_gas (m_t ex) - vm_gas r) div 2) (refunds (run_sub r));
              deposit = word_of_nat (length out) * c_createDataGas X;
              n = m_newAddress ex
          in \<exists>ex' ex''. go X ex = Some (True, ex') \<and> finalize ex' = Some ex'' \<and>
               m_s ex' = (m_s ex)\<lparr>m_cache := run_cache r\<rparr> \<and>
               (deposit \<le> e1 \<longrightarrow>
                  m_endGas ex' = e1 - deposit \<and> unat (m_endGas ex') + unat deposit = unat e1 \<and>
                  m_out ex' = out \<and>
                  (n \<notin> set (suicides (run_sub r)) \<longrightarrow> code (m_s ex'') n = out)) \<and>
               (\<not> deposit \<le> e1 \<longrightarrow>
                  m_endGas ex' = e1 \<and> m_out ex' = [] \<and>
                  code (m_s ex'') n = [] \<and>
                  (n \<notin> set (suicides (run_sub r)) \<longrightarrow>
                     (\<exists>acc. m_cache (m_s ex'') n = Some acc \<and> a_code acc = [] \<and>
                        a_nonce acc = a_nonce (cache_at (run_cache r) n) \<and>
                        a_storage acc = a_storage (cache_at (run_cache r) n) \<and>
                        a_isAlive acc = a_isAlive (cache_at (run_cache r) n)))))"
proof -
  let ?r = "vm_go X (m_s ex) e g"
  let ?e1 = "vm_gas ?r + min ((t_gas (m_t ex) - vm_gas ?r) div 2) (refunds (run_sub ?r))"
  let ?dep = "word_of_nat (length out) * c_createDataGas X :: u256"
  obtain ex' where go: "go X ex = Some (True, ex')"
    and st: "m_s ex' = (m_s ex)\<lparr>m_cache := run_cache ?r\<rparr>" "m_t ex' = m_t ex" "m_newAddress ex' = m_newAddress ex"
      "m_ext ex' = Some (e\<lparr>sub := run_sub ?r\<rparr>)"
    and paid: "?dep \<le> ?e1 \<Longrightarrow> m_endGas ex' = ?e1 - ?dep \<and> m_out ex' = out"
    and unpaid: "\<not> ?dep \<le> ?e1 \<Longrightarrow> m_endGas ex' = ?e1 \<and> m_out ex' = []"
    using assms by (cases "?dep \<le> ?e1") (simp_all add: go_def Let_def)
  have pend: "pending ex' = suicides (run_sub ?r)"
    by (simp add: pending_def st)
  obtain ex'' where fin: "finalize ex' = Some ex''"
    using finalize_total [of ex'] st by auto
  have cd: "code (m_s ex'') (m_newAddress ex) =
      (if m_newAddress ex \<in> set (suicides (run_sub ?r)) then [] else m_out ex')"
    using finalize_code [OF fin, of "m_newAddress ex"] assms(4) by (simp add: pend st)
  have acc: "m_newAddress ex \<notin> set (suicides (run_sub ?r)) \<Longrightarrow>
      \<exists>acc. m_cache (m_s ex'') (m_newAddress ex) = Some acc \<and> a_code acc = m_out ex' \<and>
        a_nonce acc = a_nonce (cache_at (run_cache ?r) (m_newAddress ex)) \<and>
        a_storage acc = a_storage (cache_at (run_cache ?r) (m_newAddress ex)) \<and>
        a_isAlive acc = a_isAlive (cache_at (run_cache ?r) (m_newAddress ex))"
    using finalize_installs_at [OF fin] assms(4) by (simp add: pend st)
  have nat: "?dep \<le> ?e1 \<Longrightarrow> unat (?e1 - ?dep) + unat ?dep = unat ?e1"
    by (simp add: unat_sub word_le_nat_alt)
  show ?thesis
    unfolding Let_def
    apply (rule exI [of _ ex'], rule exI [of _ ex''])
    using go fin st paid unpaid cd acc nat
    apply (cases "?dep \<le> ?e1")
     apply simp_all
    done
qed

text \<open>A creation whose initialisation returns three bytes and leaves one unit of gas: the
  deposit of 3 is not covered.\<close>

theorem go_charges_code_deposit_witness:
  "(\<exists>ex' ex''. go (externals 10 (vm_script (Returned [9, 9, 9]) 89 sub_clear))
                  (ex_create (vm_script (Returned [9, 9, 9]) 89 sub_clear)) = Some (True, ex') \<and>
       finalize ex' = Some ex'' \<and> m_endGas ex' = 1 \<and> m_out ex' = [] \<and>
       code (m_s ex'') 0x200000001 = [] \<and>
       (\<exists>acc. m_cache (m_s ex'') 0x200000001 = Some acc \<and> a_code acc = [] \<and> a_isAlive acc))"
proof -
  let ?vm = "vm_script (Returned [9, 9, 9]) 89 sub_clear"
  obtain e where e: "m_ext (ex_create ?vm) = Some e" using ex_create_frame(2) by blast
  have run: "outcome (vm_go (externals 10 ?vm) (m_s (ex_create ?vm)) e 90) = Returned [9, 9, 9]"
    by (simp add: externals_def vm_script_def)
  have alive: "a_isAlive (cache_at (m_cache (m_s (ex_create ?vm))) 0x200000001)"
    by (simp add: cache_at_def ex_create_more(1) new_Account_def)
  have cr: "m_isCreation (ex_create ?vm)" by (simp add: ex_create_frame)
  show ?thesis
    using go_charges_code_deposit [OF ex_create_frame(1) e cr ex_create_more(2) run] alive
    apply (simp add: Let_def ex_create_frame externals_def vm_script_def tx_def sub_clear_def)
    apply blast
    done
qed

text \<open>
  C8 as stated fails where the initialisation marks the new address for destruction. The
  same creation, with the new address \<open>0x200000001\<close> in the self-destruct set of the
  run: the deposit of 3 is not covered, the end-gas stays 1 and the output is emptied, and
  the account that \<^verbatim>\<open>create\<close> made does not persist: \<^verbatim>\<open>finalize\<close> leaves a dead
  account at the new address.
\<close>

theorem go_deposit_unpaid_and_destroyed:
  "map_option (m_endGas \<circ> snd)
     (go (externals 10 (vm_script (Returned [9, 9, 9]) 89 \<lparr>suicides = [0x200000001], logs = [], refunds = 0\<rparr>))
         (ex_create (vm_script (Returned [9, 9, 9]) 89 \<lparr>suicides = [0x200000001], logs = [], refunds = 0\<rparr>)))
     = Some 1 \<and>
   map_option (m_out \<circ> snd)
     (go (externals 10 (vm_script (Returned [9, 9, 9]) 89 \<lparr>suicides = [0x200000001], logs = [], refunds = 0\<rparr>))
         (ex_create (vm_script (Returned [9, 9, 9]) 89 \<lparr>suicides = [0x200000001], logs = [], refunds = 0\<rparr>)))
     = Some [] \<and>
   m_newAddress (ex_create (vm_script (Returned [9, 9, 9]) 89 \<lparr>suicides = [0x200000001], logs = [], refunds = 0\<rparr>))
     = 0x200000001 \<and>
   m_cache (m_s (ex_create (vm_script (Returned [9, 9, 9]) 89 \<lparr>suicides = [0x200000001], logs = [], refunds = 0\<rparr>)))
     0x200000001 = Some (new_Account 0) \<and>
   left_at 0x200000001
     (execute (externals 10 (vm_script (Returned [9, 9, 9]) 89 \<lparr>suicides = [0x200000001], logs = [], refunds = 0\<rparr>))
        (fresh s0) ((tx 0 0 None 1 100)\<lparr>t_data := [0]\<rparr>))
     = Some dead_Account \<and>
   \<not> a_isAlive dead_Account"
  apply (simp add: left_at_def execute_def ex_create_def go_def finalize_def isCreation_def pending_def
      vm_script_def sub_clear_def kill_def cache_at_def dead_Account_def eval_defs)
  apply (auto simp add: word_le_nat_alt)
  done

section \<open>Finalization\<close>

text \<open>
  C7. \<^verbatim>\<open>finalize\<close> returns whenever a creation has an adapter, as it has after
  \<^verbatim>\<open>setup\<close> and \<^verbatim>\<open>go\<close> on a new Executive: it throws nothing. With \<open>sui\<close> the
  self-destruct set of the adapter: an address outside \<open>sui\<close> gets the output as its code
  if the transaction is a creation and the address is the new one, and keeps its code
  otherwise; its balance grows by \<open>endGas * gasPrice\<close> if it is the sender and by
  \<open>(gas - endGas) * gasPrice\<close> if it is the fee recipient of the block; an address in
  \<open>sui\<close> ends with balance 0, no code, no storage, not alive.
\<close>

theorem finalize_settles:
  "(let sui = pending ex;
        refund = m_endGas ex * t_gasPrice (m_t ex);
        fees = (t_gas (m_t ex) - m_endGas ex) * t_gasPrice (m_t ex);
        cb = coinbaseAddress (m_currentBlock (m_s ex));
        install = (isCreation (m_t ex) \<and> m_newAddress ex \<notin> set sui)
    in ((isCreation (m_t ex) \<longrightarrow> m_ext ex \<noteq> None) \<longrightarrow>
          (\<exists>ex'. finalize ex = Some ex' \<and>
             (\<forall>a. a \<notin> set sui \<longrightarrow>
                code (m_s ex') a =
                  (if install \<and> a = m_newAddress ex then m_out ex else code (m_s ex) a)) \<and>
             (\<forall>a. a \<notin> set sui \<longrightarrow>
                balance (m_s ex') a =
                  balance (m_s ex) a + (if a = m_sender ex then refund else 0)
                    + (if a = cb then fees else 0)) \<and>
             (\<forall>a. a \<in> set sui \<longrightarrow>
                (\<exists>acc. m_cache (m_s ex') a = Some acc \<and> a_balance acc = 0 \<and> a_code acc = [] \<and>
                   a_storage acc = [] \<and> \<not> a_isAlive acc)))) \<and>
       (\<forall>X ex0 t b ex1.
          m_vm ex0 = None \<and> m_ext ex0 = None \<and> setup_tx X ex0 t = (Inr b, ex1) \<longrightarrow>
            (\<exists>c ex2 ex3. go X ex1 = Some (c, ex2) \<and> finalize ex2 = Some ex3)))"
proof -
  have one: "\<exists>ex'. finalize ex = Some ex' \<and>
             (\<forall>a. a \<notin> set (pending ex) \<longrightarrow>
                code (m_s ex') a =
                  (if (isCreation (m_t ex) \<and> m_newAddress ex \<notin> set (pending ex)) \<and> a = m_newAddress ex
                   then m_out ex else code (m_s ex) a)) \<and>
             (\<forall>a. a \<notin> set (pending ex) \<longrightarrow>
                balance (m_s ex') a =
                  balance (m_s ex) a
                    + (if a = m_sender ex then m_endGas ex * t_gasPrice (m_t ex) else 0)
                    + (if a = coinbaseAddress (m_currentBlock (m_s ex))
                       then (t_gas (m_t ex) - m_endGas ex) * t_gasPrice (m_t ex) else 0)) \<and>
             (\<forall>a. a \<in> set (pending ex) \<longrightarrow>
                (\<exists>acc. m_cache (m_s ex') a = Some acc \<and> a_balance acc = 0 \<and> a_code acc = [] \<and>
                   a_storage acc = [] \<and> \<not> a_isAlive acc))"
    if ok: "isCreation (m_t ex) \<longrightarrow> m_ext ex \<noteq> None"
  proof -
    obtain ex' where fin: "finalize ex = Some ex'"
      using finalize_total [OF ok] by blast
    have c: "\<forall>a. a \<notin> set (pending ex) \<longrightarrow>
                code (m_s ex') a =
                  (if (isCreation (m_t ex) \<and> m_newAddress ex \<notin> set (pending ex)) \<and> a = m_newAddress ex
                   then m_out ex else code (m_s ex) a)"
      by (auto simp add: finalize_code [OF fin])
    have b: "\<forall>a. a \<notin> set (pending ex) \<longrightarrow>
                balance (m_s ex') a =
                  balance (m_s ex) a
                    + (if a = m_sender ex then m_endGas ex * t_gasPrice (m_t ex) else 0)
                    + (if a = coinbaseAddress (m_currentBlock (m_s ex))
                       then (t_gas (m_t ex) - m_endGas ex) * t_gasPrice (m_t ex) else 0)"
      by (simp add: finalize_balance [OF fin])
    have k: "\<forall>a. a \<in> set (pending ex) \<longrightarrow>
                (\<exists>acc. m_cache (m_s ex') a = Some acc \<and> a_balance acc = 0 \<and> a_code acc = [] \<and>
                   a_storage acc = [] \<and> \<not> a_isAlive acc)"
      by (simp add: finalize_killed [OF fin] dead_Account_def)
    from fin c b k show ?thesis by blast
  qed
  have two: "\<exists>c ex2 ex3. go X ex1 = Some (c, ex2) \<and> finalize ex2 = Some ex3"
    if h: "m_vm ex0 = None \<and> m_ext ex0 = None \<and> setup_tx X ex0 t = (Inr b, ex1)"
    for X ex0 t b ex1
  proof -
    from h have fr: "m_t ex1 = t \<and> (m_vm ex1 \<noteq> None \<longrightarrow> m_ext ex1 \<noteq> None) \<and>
         (isCreation t \<longrightarrow> m_ext ex1 \<noteq> None)"
      using setup_leaves_frame [of ex0 X t b ex1] by blast
    then obtain c ex2 where g: "go X ex1 = Some (c, ex2)" "m_t ex2 = m_t ex1"
      "m_ext ex1 \<noteq> None \<longrightarrow> m_ext ex2 \<noteq> None"
      using go_total [of ex1 X] by blast
    with fr have "isCreation (m_t ex2) \<longrightarrow> m_ext ex2 \<noteq> None" by simp
    from finalize_total [OF this] g(1) show ?thesis by blast
  qed
  from one two show ?thesis
    unfolding Let_def by blast
qed

text \<open>A creation with gas limit 100 at price 1 that returns one byte with 30 gas left and
  marks \<open>addr_K\<close> for destruction: end-gas 29 after the deposit, 29 back to the sender, 71
  to the fee recipient.\<close>

theorem finalize_settles_witness:
  "\<exists>ex2 ex3. go (externals 10 (vm_script (Returned [9]) 60 \<lparr>suicides = [addr_K], logs = [], refunds = 0\<rparr>))
                (ex_create (vm_script (Returned [9]) 60 \<lparr>suicides = [addr_K], logs = [], refunds = 0\<rparr>))
              = Some (True, ex2) \<and>
     finalize ex2 = Some ex3 \<and>
     m_endGas ex2 = 29 \<and>
     code (m_s ex3) 0x200000001 = [9] \<and>
     balance (m_s ex3) addr_A = 929 \<and>
     balance (m_s ex3) addr_M = 71 \<and>
     code (m_s ex2) addr_K = [0] \<and>
     (\<exists>acc. m_cache (m_s ex3) addr_K = Some acc \<and> a_balance acc = 0 \<and> a_code acc = [] \<and>
        a_storage acc = [] \<and> \<not> a_isAlive acc)"
proof -
  let ?vm = "vm_script (Returned [9]) 60 \<lparr>suicides = [addr_K], logs = [], refunds = 0\<rparr>"
  have "\<exists>ex2. go (externals 10 ?vm) (ex_create ?vm) = Some (True, ex2) \<and>
      m_endGas ex2 = 29 \<and> m_out ex2 = [9] \<and> pending ex2 = [addr_K] \<and> m_sender ex2 = addr_A \<and>
      m_t ex2 = (tx 0 0 None 1 100)\<lparr>t_data := [0]\<rparr> \<and> m_newAddress ex2 = 0x200000001 \<and>
      m_s ex2 = m_s (ex_create ?vm) \<and> m_ext ex2 \<noteq> None"
    by (simp add: go_def ex_create_def eval_defs vm_script_def pending_def)
  then obtain ex2 where go: "go (externals 10 ?vm) (ex_create ?vm) = Some (True, ex2)"
    and f: "m_endGas ex2 = 29" "m_out ex2 = [9]" "pending ex2 = [addr_K]" "m_sender ex2 = addr_A"
      "m_t ex2 = (tx 0 0 None 1 100)\<lparr>t_data := [0]\<rparr>" "m_newAddress ex2 = 0x200000001"
      "m_s ex2 = m_s (ex_create ?vm)" "m_ext ex2 \<noteq> None"
    by blast
  have vals: "balance (m_s (ex_create ?vm)) addr_A = 900" "balance (m_s (ex_create ?vm)) addr_M = 0"
    "code (m_s (ex_create ?vm)) addr_K = [0]" "coinbaseAddress (m_currentBlock (m_s (ex_create ?vm))) = addr_M"
    "addr_A \<noteq> addr_K" "addr_M \<noteq> addr_K" "addr_K \<noteq> 0x200000001" "addr_A \<noteq> addr_M"
    by (simp_all add: ex_create_more(3) balance_def code_def scenario_defs)
  from finalize_settles [of ex2, unfolded Let_def, THEN conjunct1, rule_format] f(8)
  obtain ex3 where fin: "finalize ex2 = Some ex3"
    and c: "\<And>a. a \<notin> set (pending ex2) \<Longrightarrow> code (m_s ex3) a =
                  (if (isCreation (m_t ex2) \<and> m_newAddress ex2 \<notin> set (pending ex2)) \<and> a = m_newAddress ex2
                   then m_out ex2 else code (m_s ex2) a)"
    and b: "\<And>a. a \<notin> set (pending ex2) \<Longrightarrow> balance (m_s ex3) a =
                  balance (m_s ex2) a
                    + (if a = m_sender ex2 then m_endGas ex2 * t_gasPrice (m_t ex2) else 0)
                    + (if a = coinbaseAddress (m_currentBlock (m_s ex2))
                       then (t_gas (m_t ex2) - m_endGas ex2) * t_gasPrice (m_t ex2) else 0)"
    and k: "\<And>a. a \<in> set (pending ex2) \<Longrightarrow> (\<exists>acc. m_cache (m_s ex3) a = Some acc \<and> a_balance acc = 0 \<and> a_code acc = [] \<and>
                   a_storage acc = [] \<and> \<not> a_isAlive acc)"
    by blast
  have "code (m_s ex3) 0x200000001 = [9]"
    using c [of "0x200000001"] vals by (simp add: f isCreation_def tx_def)
  moreover have "balance (m_s ex3) addr_A = 929"
    using b [of addr_A] vals by (simp add: f tx_def)
  moreover have "balance (m_s ex3) addr_M = 71"
    using b [of addr_M] vals by (simp add: f tx_def)
  moreover have "\<exists>acc. m_cache (m_s ex3) addr_K = Some acc \<and> a_balance acc = 0 \<and> a_code acc = [] \<and>
        a_storage acc = [] \<and> \<not> a_isAlive acc"
    using k [of addr_K] by (simp add: f)
  ultimately show ?thesis
    using go fin f vals by auto
qed

section \<open>What a transaction costs its sender\<close>

text \<open>
  C5, with the condition it needs on the code that runs. Take a transaction that
  \<^verbatim>\<open>setup\<close> accepts on a new Executive, whose sender is neither its receiver (for a
  creation: the address created) nor the fee recipient of the block, and suppose that the
  run of the interpreter, if there is one, leaves the sender's balance as it was and does
  not mark the sender for destruction. Then \<^verbatim>\<open>setup\<close>, \<^verbatim>\<open>go\<close> and \<^verbatim>\<open>finalize\<close>
  go through, and the sender's balance before, less the sender's balance after, is
  \<open>value + (gas - endGas) * gasPrice\<close>, an equation of \<^verbatim>\<open>u256\<close>.
\<close>

theorem sender_pays_value_and_gas_used:
  assumes new: "m_vm ex0 = None" "m_ext ex0 = None"
    and accepted: "setup_tx X ex0 t = (Inr b, ex1)"
    and rcv: "t_receiveAddress t \<noteq> Some (t_sender t)"
    and made: "isCreation t \<longrightarrow>
                 right160 X (sha3 X (rlpList X (t_sender t) (t_nonce t))) \<noteq> t_sender t"
    and fee: "coinbaseAddress (m_currentBlock (m_s ex0)) \<noteq> t_sender t"
    and run: "\<forall>g e. m_vm ex1 = Some g \<and> m_ext ex1 = Some e \<longrightarrow>
                balance ((m_s ex1)\<lparr>m_cache := run_cache (vm_go X (m_s ex1) e g)\<rparr>) (t_sender t)
                  = balance (m_s ex1) (t_sender t) \<and>
                t_sender t \<notin> set (suicides (run_sub (vm_go X (m_s ex1) e g)))"
  shows "\<exists>ex3. execute X ex0 t = Some (Inr ex3) \<and>
           balance (m_s ex0) (t_sender t) - balance (m_s ex3) (t_sender t)
             = t_value t + (t_gas t - m_endGas ex3) * t_gasPrice t"
proof -
  let ?a = "t_sender t"
  note s = setup_accepted [OF accepted]
  have fr: "m_vm ex1 \<noteq> None \<longrightarrow> m_ext ex1 \<noteq> None" "isCreation t \<longrightarrow> m_ext ex1 \<noteq> None"
    using setup_leaves_frame [OF new accepted] by simp_all
  obtain c ex2 where go: "go X ex1 = Some (c, ex2)"
    and keep: "m_ext ex1 \<noteq> None \<longrightarrow> m_ext ex2 \<noteq> None"
    using go_total [of ex1 X] fr(1) by blast
  note g = go_effect [OF go]
  have mem: "m_t ex2 = t" "m_sender ex2 = ?a" using g(1,2) s(1,2) by simp_all
  have st: "balance (m_s ex2) ?a = balance (m_s ex1) ?a \<and>
            m_currentBlock (m_s ex2) = m_currentBlock (m_s ex1) \<and> ?a \<notin> set (pending ex2)"
  proof (cases "m_vm ex1")
    case None
    then have "ex2 = ex1" by (rule g(3))
    moreover have "m_ext ex1 = None \<or> (\<exists>e. m_ext ex1 = Some e)" by auto
    ultimately show ?thesis
      using None accepted new
      by (auto simp add: pending_def setup_tx_def call_def create_def Let_def
          split: if_splits option.splits prod.splits)
  next
    case (Some gs)
    then obtain e where e: "m_ext ex1 = Some e" using fr(1) by auto
    have orig: "m_origCache e = m_cache (m_s ex1)" using s(5) [OF new(2) e] .
    have r: "balance ((m_s ex1)\<lparr>m_cache := run_cache (vm_go X (m_s ex1) e gs)\<rparr>) ?a
        = balance (m_s ex1) ?a"
      "?a \<notin> set (suicides (run_sub (vm_go X (m_s ex1) e gs)))"
      using run Some e by simp_all
    have "balance ((m_s ex1)\<lparr>m_cache := m_origCache e\<rparr>) ?a
            = balance (m_s ex1) ?a"
      by (simp add: balance_def orig)
    then show ?thesis
      using g(4) [OF Some e] r by auto
  qed
  have "isCreation (m_t ex2) \<longrightarrow> m_ext ex2 \<noteq> None"
    using fr(2) keep mem by simp
  then obtain ex3 where fin: "finalize ex2 = Some ex3"
    using finalize_total by blast
  have ex: "execute X ex0 t = Some (Inr ex3)"
    by (simp add: execute_def accepted go fin)
  have cb: "coinbaseAddress (m_currentBlock (m_s ex2)) \<noteq> ?a"
    using st s(3) fee by simp
  have "balance (m_s ex3) ?a = balance (m_s ex2) ?a + m_endGas ex2 * t_gasPrice t"
    using finalize_balance [OF fin, of ?a] st cb mem by simp
  moreover have "m_endGas ex3 = m_endGas ex2" using finalize_members(1) [OF fin] .
  moreover have "balance (m_s ex1) ?a =
      balance (m_s ex0) ?a - (t_value t + t_gas t * t_gasPrice t)"
    using setup_accepted_balance [OF accepted rcv made] .
  ultimately have "balance (m_s ex0) ?a - balance (m_s ex3) ?a
      = t_value t + (t_gas t - m_endGas ex3) * t_gasPrice t"
    using st by (simp add: algebra_simps)
  with ex show ?thesis by blast
qed

text \<open>A call of \<open>addr_K\<close> with value 100 and gas limit 50 at price 2, intrinsic gas 10;
  the code uses 15 gas, counts 2 of refunds and marks itself for destruction: end-gas 27,
  and the sender is left with 854.\<close>

theorem sender_pays_value_and_gas_used_witness:
  "settled addr_A (execute (externals 10 (vm_script (Returned []) 15
        \<lparr>suicides = [addr_K], logs = [], refunds = 2\<rparr>)) (fresh s0) (tx 0 100 (Some addr_K) 2 50))
     = Some (854, 27) \<and>
   (\<exists>ex3. execute (externals 10 (vm_script (Returned []) 15
        \<lparr>suicides = [addr_K], logs = [], refunds = 2\<rparr>)) (fresh s0) (tx 0 100 (Some addr_K) 2 50)
       = Some (Inr ex3) \<and>
      balance s0 addr_A - balance (m_s ex3) addr_A = 100 + (50 - m_endGas ex3) * 2) \<and>
   (1000 :: u256) - 854 = 100 + (50 - 27) * 2"
proof -
  let ?vm = "vm_script (Returned []) 15 \<lparr>suicides = [addr_K], logs = [], refunds = 2\<rparr>"
  let ?X = "externals 10 ?vm"
  let ?t = "tx 0 100 (Some addr_K) 2 50"
  have "fst (setup_tx ?X (fresh s0) ?t) = Inr False"
    by (simp add: eval_defs)
  then obtain ex1 where acc: "setup_tx ?X (fresh s0) ?t = (Inr False, ex1)"
    by (cases "setup_tx ?X (fresh s0) ?t") auto
  have new: "m_vm (fresh s0) = None" "m_ext (fresh s0) = None"
    by (simp_all add: fresh_def)
  have rcv: "t_receiveAddress ?t \<noteq> Some (t_sender ?t)"
    by (simp add: tx_def addr_A_def addr_K_def)
  have made: "isCreation ?t \<longrightarrow>
      right160 ?X (sha3 ?X (rlpList ?X (t_sender ?t) (t_nonce ?t))) \<noteq> t_sender ?t"
    by (simp add: isCreation_def tx_def)
  have fee: "coinbaseAddress (m_currentBlock (m_s (fresh s0))) \<noteq> t_sender ?t"
    by (simp add: scenario_defs)
  have run: "\<forall>g e. m_vm ex1 = Some g \<and> m_ext ex1 = Some e \<longrightarrow>
      balance ((m_s ex1)\<lparr>m_cache := run_cache (vm_go ?X (m_s ex1) e g)\<rparr>) (t_sender ?t)
        = balance (m_s ex1) (t_sender ?t) \<and>
      t_sender ?t \<notin> set (suicides (run_sub (vm_go ?X (m_s ex1) e g)))"
    by (simp add: externals_def vm_script_def tx_def addr_A_def addr_K_def)
  have val: "settled addr_A (execute ?X (fresh s0) ?t) = Some (854, 27)"
    by (simp add: settled_def execute_def go_def finalize_def isCreation_def pending_def
        vm_script_def sub_clear_def eval_defs)
  from sender_pays_value_and_gas_used [OF new acc rcv made fee run]
  have "\<exists>ex3. execute ?X (fresh s0) ?t = Some (Inr ex3) \<and>
      balance s0 addr_A - balance (m_s ex3) addr_A = 100 + (50 - m_endGas ex3) * 2"
    by (simp add: tx_def fresh_def)
  with val show ?thesis by simp
qed

text \<open>
  C5 as stated fails when the code called pays its caller. The same call, where the code
  of \<open>addr_K\<close> sends one unit back to the sender: the sender ends with 881 and the end-gas
  is 40, so the sender has paid 119, not \<open>100 + (50 - 40) * 2 = 120\<close>.
\<close>

theorem sender_pays_counterexample:
  "t_sender (tx 0 100 (Some addr_K) 2 50) = addr_A \<and>
   addr_A \<noteq> addr_K \<and> addr_A \<noteq> coinbaseAddress (m_currentBlock s0) \<and>
   balance s0 addr_A = 1000 \<and>
   settled addr_A (execute (externals 10 vm_repay) (fresh s0) (tx 0 100 (Some addr_K) 2 50))
     = Some (881, 40) \<and>
   (1000 :: u256) - 881 \<noteq> 100 + (50 - 40) * 2"
  by (simp add: settled_def execute_def go_def finalize_def isCreation_def pending_def vm_repay_def sub_clear_def eval_defs)

section \<open>The plain value transfer of the first scenario\<close>

text \<open>
  C9, with the intrinsic gas of the payload taken into account. A sender with balance 1000
  and nonce 0 sends value 100 with gas limit 50 at price 2 and nonce 0 to another address
  that has no code and is no native contract;
  the sender is not the fee recipient, the block has room for 50 more gas, and the
  intrinsic gas \<open>g\<close> of the payload is at most 50. Then \<^verbatim>\<open>setup\<close> accepts and returns
  true, the sender is left with 800 and the receiver has 100 more; the end-gas is
  \<open>50 - g\<close>, since \<^verbatim>\<open>call\<close> is given the gas limit less the intrinsic gas; \<^verbatim>\<open>go\<close>
  changes nothing; \<^verbatim>\<open>finalize\<close> gives the sender \<open>(50 - g) * 2\<close> and the fee
  recipient \<open>g * 2\<close>, and the sender's nonce is 1. With \<open>g = 0\<close> these are the numbers
  of the scenario: end-gas 50, sender 900, fee recipient 0.
\<close>

theorem plain_transfer_scenario:
  assumes new: "m_vm ex0 = None" "m_ext ex0 = None"
    and t: "t = \<lparr>t_nonce = 0, t_value = 100, t_receiveAddress = Some r, t_gasPrice = 2,
                 t_gas = 50, t_data = d, t_sender = a\<rparr>"
    and sender: "balance (m_s ex0) a = 1000" "transactionsFrom (m_s ex0) a = 0"
    and receiver: "\<not> addressHasCode (m_s ex0) r" "find_precompiled X r = None"
    and apart: "r \<noteq> a" "coinbaseAddress (m_currentBlock (m_s ex0)) \<noteq> a"
    and intrinsic: "txGas X d \<le> 50"
    and room: "\<not> gasUsed (m_s ex0) + 50 > gasLimit (m_currentBlock (m_s ex0))"
  shows "\<exists>ex1 ex3.
           setup_tx X ex0 t = (Inr True, ex1) \<and>
           balance (m_s ex1) a = 800 \<and>
           balance (m_s ex1) r = balance (m_s ex0) r + 100 \<and>
           m_endGas ex1 = 50 - word_of_int (txGas X d) \<and>
           go X ex1 = Some (True, ex1) \<and>
           finalize ex1 = Some ex3 \<and>
           execute X ex0 t = Some (Inr ex3) \<and>
           balance (m_s ex3) a = 800 + (50 - word_of_int (txGas X d)) * 2 \<and>
           balance (m_s ex3) (coinbaseAddress (m_currentBlock (m_s ex0))) =
             balance (m_s ex1) (coinbaseAddress (m_currentBlock (m_s ex0)))
               + word_of_int (txGas X d) * 2 \<and>
           transactionsFrom (m_s ex3) a = 1 \<and>
           (txGas X d = 0 \<longrightarrow>
              m_endGas ex1 = 50 \<and> balance (m_s ex3) a = 900 \<and>
              balance (m_s ex3) (coinbaseAddress (m_currentBlock (m_s ex0))) =
                balance (m_s ex1) (coinbaseAddress (m_currentBlock (m_s ex0))))"
proof -
  let ?g = "word_of_int (txGas X d) :: u256"
  let ?cb = "coinbaseAddress (m_currentBlock (m_s ex0))"
  have cost: "t_value t + t_gas t * t_gasPrice t = 200" by (simp add: t)
  have ok: "\<not> uint (t_gas t) < txGas X (t_data t)" using intrinsic by (simp add: t)
  obtain ex1 where su: "setup_tx X ex0 t = (Inr True, ex1)"
    and f1: "m_endGas ex1 = 50 - ?g" "m_vm ex1 = None" "m_ext ex1 = None"
      "m_t ex1 = t" "m_sender ex1 = a"
      "m_s ex1 = addBalance (subBalance (noteSending (m_s ex0) a) a 200) r 100"
    using new sender receiver room ok
    by (simp add: setup_tx_def call_def Let_def t addressHasCode_addBalance
        addressHasCode_subBalance addressHasCode_noteSending)
  have b1: "balance (m_s ex1) a = 800" "balance (m_s ex1) r = balance (m_s ex0) r + 100"
    "transactionsFrom (m_s ex1) a = 1" "m_currentBlock (m_s ex1) = m_currentBlock (m_s ex0)"
    using apart sender
    by (simp_all add: f1 balance_addBalance balance_subBalance balance_noteSending
        transactionsFrom_addBalance transactionsFrom_subBalance transactionsFrom_noteSending
        block_addBalance block_subBalance block_noteSending)
  have go: "go X ex1 = Some (True, ex1)" by (simp add: go_def f1)
  have "\<not> isCreation (m_t ex1)" by (simp add: f1 t isCreation_def)
  then obtain ex3 where fin: "finalize ex1 = Some ex3"
    using finalize_total [of ex1] by auto
  have p: "pending ex1 = []" by (simp add: pending_def f1)
  have ba: "balance (m_s ex3) a = 800 + (50 - ?g) * 2"
    using finalize_balance [OF fin, of a] apart by (simp add: p f1(1,4,5) b1 t)
  have bc: "balance (m_s ex3) ?cb = balance (m_s ex1) ?cb + ?g * 2"
    using finalize_balance [OF fin, of ?cb] apart by (simp add: p f1(1,4,5) b1 t)
  have n: "transactionsFrom (m_s ex3) a = 1"
    using finalize_nonce [OF fin, of a] by (simp add: p b1)
  have ex: "execute X ex0 t = Some (Inr ex3)"
    by (simp add: execute_def su go fin)
  show ?thesis
    apply (rule exI [of _ ex1], rule exI [of _ ex3])
    using su b1 f1(1) go fin ex ba bc n
    apply simp
    done
qed

text \<open>The scenario on \<open>s0\<close>, from \<open>addr_A\<close> to \<open>addr_B\<close>, with no intrinsic gas.\<close>

theorem plain_transfer_scenario_witness:
  "\<exists>ex1 ex3.
     setup_tx (externals 0 vm_idle) (fresh s0) (tx 0 100 (Some addr_B) 2 50) = (Inr True, ex1) \<and>
     balance (m_s ex1) addr_A = 800 \<and> balance (m_s ex1) addr_B = 100 \<and>
     m_endGas ex1 = 50 \<and>
     execute (externals 0 vm_idle) (fresh s0) (tx 0 100 (Some addr_B) 2 50) = Some (Inr ex3) \<and>
     balance (m_s ex3) addr_A = 900 \<and> balance (m_s ex3) addr_M = 0 \<and>
     transactionsFrom (m_s ex3) addr_A = 1"
proof -
  let ?X = "externals 0 vm_idle"
  have new: "m_vm (fresh s0) = None" "m_ext (fresh s0) = None" by (simp_all add: fresh_def)
  have t: "tx 0 100 (Some addr_B) 2 50 = \<lparr>t_nonce = 0, t_value = 100, t_receiveAddress = Some addr_B,
      t_gasPrice = 2, t_gas = 50, t_data = [], t_sender = addr_A\<rparr>" by (simp add: tx_def)
  have sender: "balance (m_s (fresh s0)) addr_A = 1000" "transactionsFrom (m_s (fresh s0)) addr_A = 0"
    by (simp_all add: balance_def transactionsFrom_def scenario_defs)
  have receiver: "\<not> addressHasCode (m_s (fresh s0)) addr_B" "find_precompiled ?X addr_B = None"
    by (simp_all add: addressHasCode_def find_precompiled_def scenario_defs)
  have apart: "addr_B \<noteq> addr_A" "coinbaseAddress (m_currentBlock (m_s (fresh s0))) \<noteq> addr_A"
    by (simp_all add: scenario_defs)
  have intrinsic: "txGas ?X [] \<le> 50" by (simp add: externals_def)
  have room: "\<not> gasUsed (m_s (fresh s0)) + 50 > gasLimit (m_currentBlock (m_s (fresh s0)))"
    by (simp add: gasUsed_def scenario_defs)
  have vals: "balance s0 addr_B = 0" "balance s0 addr_M = 0" "addr_M \<noteq> addr_A" "addr_M \<noteq> addr_B"
    "coinbaseAddress (m_currentBlock s0) = addr_M" "m_s (fresh s0) = s0" "txGas ?X [] = 0"
    by (simp_all add: balance_def scenario_defs)
  from plain_transfer_scenario [OF new t sender receiver apart intrinsic room]
  obtain ex1 ex3 where r: "setup_tx ?X (fresh s0) (tx 0 100 (Some addr_B) 2 50) = (Inr True, ex1)"
    "balance (m_s ex1) addr_A = 800" "balance (m_s ex1) addr_B = balance s0 addr_B + 100"
    "m_endGas ex1 = 50"
    "execute ?X (fresh s0) (tx 0 100 (Some addr_B) 2 50) = Some (Inr ex3)"
    "balance (m_s ex3) addr_A = 900"
    "balance (m_s ex3) addr_M = balance (m_s ex1) addr_M"
    "transactionsFrom (m_s ex3) addr_A = 1"
    by (auto simp add: vals)
  have "balance (m_s ex1) addr_M = 0"
    using r(1) by (auto simp add: eval_defs)
  with r vals show ?thesis by auto
qed

text \<open>
  C9 as stated fails as soon as the payload has an intrinsic gas: with \<open>g = 10\<close> the
  end-gas is 40, not 50, the sender ends with 880, not 900, and the fee recipient gets 20,
  not 0.
\<close>

theorem plain_transfer_scenario_counterexample:
  "balance s0 addr_A = 1000 \<and> transactionsFrom s0 addr_A = 0 \<and>
   \<not> addressHasCode s0 addr_B \<and> find_precompiled (externals 10 vm_idle) addr_B = None \<and>
   balance s0 addr_M = 0 \<and> coinbaseAddress (m_currentBlock s0) = addr_M \<and>
   fst (setup_tx (externals 10 vm_idle) (fresh s0) (tx 0 100 (Some addr_B) 2 50)) = Inr True \<and>
   m_endGas (snd (setup_tx (externals 10 vm_idle) (fresh s0) (tx 0 100 (Some addr_B) 2 50))) = 40 \<and>
   settled addr_A (execute (externals 10 vm_idle) (fresh s0) (tx 0 100 (Some addr_B) 2 50))
     = Some (880, 40) \<and>
   settled addr_M (execute (externals 10 vm_idle) (fresh s0) (tx 0 100 (Some addr_B) 2 50))
     = Some (20, 40)"
  by (simp add: settled_def execute_def go_def finalize_def isCreation_def pending_def eval_defs)

section \<open>The address of a new contract\<close>



end
